theory Spec2Isabelle
  imports Complex_Main
begin

section \<open>JavaScript values used by the library\<close>

text \<open>
  A JavaScript \<open>number\<close> is modelled by its exact value, with the three special values that
  the code can produce or test for written out. Rounding of finite values is not modelled.
\<close>

datatype js_number = Num rat | NaN | PosInf | NegInf

text \<open>Truthiness of a number: \<open>0\<close> and \<open>NaN\<close> are falsy.\<close>

fun truthy_num :: "js_number \<Rightarrow> bool" where
  "truthy_num (Num r) = (r \<noteq> 0)"
| "truthy_num NaN = False"
| "truthy_num PosInf = True"
| "truthy_num NegInf = True"

text \<open>\<open>x || d\<close> on an optional numeric argument (\<open>None\<close> is \<open>undefined\<close>).\<close>

fun or_default :: "js_number option \<Rightarrow> js_number \<Rightarrow> js_number" where
  "or_default None d = d"
| "or_default (Some x) d = (if truthy_num x then x else d)"

text \<open>\<open>x ?? d\<close>: only a missing value is replaced.\<close>

fun nullish :: "'a option \<Rightarrow> 'a \<Rightarrow> 'a" where
  "nullish None d = d"
| "nullish (Some x) d = x"

text \<open>Truthiness of a string that may be \<open>null\<close> or \<open>undefined\<close>.\<close>

fun truthy_str :: "string option \<Rightarrow> bool" where
  "truthy_str None = False"
| "truthy_str (Some s) = (s \<noteq> [])"

datatype js_error = Error string | RangeError string | TypeError string

section \<open>Wire messages\<close>

record voice_server =
  vs_guild_id :: string
  vs_token :: string
  vs_endpoint :: string

record voice_state =
  user_id :: string
  channel_id :: "string option"
  guild_id :: string
  session_id :: string

text \<open>The sub-object of a \<open>filters\<close> command; \<open>cleanFilters\<close> sends none.\<close>

datatype filter =
    Karaoke js_number js_number js_number js_number
  | Timescale js_number js_number js_number
  | Tremolo js_number js_number
  | Vibrato js_number js_number
  | Rotation js_number
  | Distortion js_number js_number js_number js_number js_number js_number js_number js_number
  | ChannelMix js_number js_number js_number js_number
  | LowPass js_number

text \<open>
  The payloads handed to \<open>Node.send\<close>. \<open>JSON.stringify\<close> is kept abstract: a packet stands for
  its serialised form. The field order of each constructor is the one of the object literal
  in the source. An equalizer band list carries \<open>None\<close> where the band array has a hole.
\<close>

datatype packet =
    OpPlay string string js_number js_number bool bool
  | OpStop string
  | OpPause string bool
  | OpSeek string js_number
  | OpVolume string js_number
  | OpEqualizer string "(nat \<times> js_number) option list option"
  | OpFilters string "filter option"
  | OpVoiceUpdate string string voice_server
  | OpDestroy string
  | OpConfigureResuming string nat

text \<open>Class \<open>Track\<close>: the resolved audio item that the host pushes on a queue.\<close>

record track =
  uri :: string
  title :: string
  author :: string
  duration :: js_number
  track_identifier :: string
  isStream :: bool
  isSeekable :: bool
  track_code :: string
  thumbnail :: "string option"

record track_info =
  info_uri :: string
  info_title :: string
  info_author :: string
  info_length :: js_number
  info_identifier :: string
  info_isStream :: bool
  info_isSeekable :: bool

text \<open>The constructor of \<open>Track\<close>, from the \<open>info\<close> object and the encoded track.\<close>

definition new_track :: "track_info \<Rightarrow> string \<Rightarrow> track" where
  "new_track info code =
     \<lparr> uri = info_uri info, title = info_title info, author = info_author info,
       duration = info_length info, track_identifier = info_identifier info,
       isStream = info_isStream info, isSeekable = info_isSeekable info,
       track_code = code,
       thumbnail = Some (''https://i.ytimg.com/vi/'' @ info_identifier info
                         @ ''/maxresdefault.jpg'') \<rparr>"

text \<open>
  The voice-gateway payload handed to the host's \<open>transfer\<close> callback: always op 4, with
  guild, channel (\<open>None\<close> for \<open>null\<close> or \<open>undefined\<close>), self-mute and self-deaf.
\<close>

datatype gateway = Op4 string "string option" bool bool

text \<open>Notifications emitted on the manager (\<open>manager.emit\<close>), in emission order.\<close>

datatype event =
    NodeConnect string
  | NodeReconnect string
  | NodeError int string
  | NodeClose int string
  | TrackStart string "track option"
  | TrackEnd string "track option"
  | TrackStuck string "track option"
  | TrackException string "track option"
  | SocketClosed string int
  | QueueEnd string "track option"
  | PlayerDestroy string

section \<open>Node\<close>

record stats_memory =
  mem_free :: js_number
  mem_used :: js_number
  mem_allocated :: js_number
  mem_reservable :: js_number

record stats_cpu =
  cores :: js_number
  systemLoad :: js_number
  lavalinkLoad :: js_number

record stats_frames =
  frames_sent :: js_number
  frames_nulled :: js_number
  frames_deficit :: js_number

text \<open>
  The stats snapshot. After a stats message it is a copy of the packet, so \<open>cpu\<close> and
  \<open>frameStats\<close> may be missing.
\<close>

record node_stats =
  stats_players :: js_number
  playingPlayers :: js_number
  uptime :: js_number
  memory :: "stats_memory option"
  cpu :: "stats_cpu option"
  frameStats :: "stats_frames option"

text \<open>
  The fields of class \<open>Node\<close>, followed by what the node does to its environment:
  \<open>wire\<close> lists the payloads handed to the socket's \<open>send\<close>, \<open>timers\<close> the pending
  \<open>setTimeout\<close> callbacks (each one a reconnect), \<open>closed\<close> the sockets it closed, and
  \<open>fresh\<close> numbers the handles that \<open>setTimeout\<close> and \<open>new WebSocket\<close> return.
\<close>

record node =
  node_id :: "string option"
  host :: string
  port :: string
  auth :: string
  secure :: bool
  reconnAfter :: nat
  resumeKey :: "string option"
  resumeTout :: nat
  redirects :: bool
  stats :: node_stats
  connected :: bool
  reconn :: "nat option"
  ws :: "nat option"
  packetQueue :: "packet list"
  wire :: "packet list"
  timers :: "nat list"
  closed :: "nat list"
  fresh :: nat

record node_options =
  opt_id :: "string option"
  opt_host :: string
  opt_port :: string
  opt_auth :: "string option"
  opt_secure :: "bool option"
  opt_reconnAfter :: "nat option"
  opt_resumeKey :: "string option"
  opt_resumeTout :: "nat option"
  opt_redirects :: "bool option"

definition initial_stats :: node_stats where
  "initial_stats =
     \<lparr> stats_players = Num 0, playingPlayers = Num 0, uptime = Num 0,
       memory = Some \<lparr> mem_free = Num 0, mem_used = Num 0, mem_allocated = Num 0,
                       mem_reservable = Num 0 \<rparr>,
       cpu = Some \<lparr> cores = Num 0, systemLoad = Num 0, lavalinkLoad = Num 0 \<rparr>,
       frameStats = Some \<lparr> frames_sent = Num 0, frames_nulled = Num 0,
                            frames_deficit = Num 0 \<rparr> \<rparr>"

text \<open>The constructor of \<open>Node\<close>.\<close>

definition new_node :: "node_options \<Rightarrow> node" where
  "new_node options =
     \<lparr> node_id = opt_id options,
       host = opt_host options,
       port = opt_port options,
       auth = nullish (opt_auth options) [],
       secure = nullish (opt_secure options) False,
       reconnAfter = nullish (opt_reconnAfter options) 5000,
       resumeKey = opt_resumeKey options,
       resumeTout = nullish (opt_resumeTout options) 60,
       redirects = nullish (opt_redirects options) False,
       stats = initial_stats,
       connected = False,
       reconn = None,
       ws = None,
       packetQueue = [],
       wire = [],
       timers = [],
       closed = [],
       fresh = 0 \<rparr>"

text \<open>The name under which a node appears in a notification.\<close>

definition node_tag :: "node \<Rightarrow> string" where
  "node_tag n = (case node_id n of Some i \<Rightarrow> i | None \<Rightarrow> host n)"

text \<open>\<open>sendPacket\<close>: \<open>this.#ws?.send(payload, ...)\<close> does nothing without a socket.\<close>

definition sendPacket :: "packet \<Rightarrow> node \<Rightarrow> node" where
  "sendPacket payload n =
     (case ws n of None \<Rightarrow> n | Some s \<Rightarrow> n\<lparr>wire := wire n @ [payload]\<rparr>)"

text \<open>
  \<open>send\<close>: while not connected the packet is pushed on the queue and the new length is
  returned; otherwise it goes to the socket and nothing is returned.
\<close>

definition send :: "packet \<Rightarrow> node \<Rightarrow> nat option \<times> node" where
  "send payload n =
     (if \<not> connected n
      then (let q = packetQueue n @ [payload] in (Some (length q), n\<lparr>packetQueue := q\<rparr>))
      else (None, sendPacket payload n))"

text \<open>\<open>send\<close> for a caller that drops the returned value.\<close>

definition do_send :: "packet \<Rightarrow> node \<Rightarrow> node" where
  "do_send payload n = snd (send payload n)"

text \<open>Sending a list of payloads one after the other, collecting what each call returns.\<close>

fun send_all :: "packet list \<Rightarrow> node \<Rightarrow> nat option list \<times> node" where
  "send_all [] n = ([], n)"
| "send_all (p # ps) n =
     (case send p n of (r, n') \<Rightarrow> (case send_all ps n' of (rs, n'') \<Rightarrow> (r # rs, n'')))"

text \<open>\<open>connect\<close>: closes a live socket, then opens a new one.\<close>

definition connect_node :: "node \<Rightarrow> node" where
  "connect_node n =
     (let n1 = (case ws n of None \<Rightarrow> n | Some s \<Rightarrow> n\<lparr>closed := closed n @ [s]\<rparr>)
      in n1\<lparr>ws := Some (fresh n1), fresh := Suc (fresh n1)\<rparr>)"

text \<open>
  The \<open>open\<close> handler: clears the timer that \<open>reconn\<close> names, sends the resume
  configuration (through \<open>send\<close>, before the flag is set), emits \<open>nodeConnect\<close> and sets
  \<open>connected\<close>.
\<close>

definition open_handler :: "node \<Rightarrow> event list \<Rightarrow> node \<times> event list" where
  "open_handler n evs =
     (let n1 = (case reconn n of None \<Rightarrow> n
                | Some t \<Rightarrow> n\<lparr>timers := filter (\<lambda>u. u \<noteq> t) (timers n)\<rparr>);
          n2 = (case resumeKey n1 of
                  None \<Rightarrow> n1
                | Some k \<Rightarrow> if k \<noteq> [] then do_send (OpConfigureResuming k (resumeTout n1)) n1
                            else n1)
      in (n2\<lparr>connected := True\<rparr>, evs @ [NodeConnect (node_tag n2)]))"

text \<open>What the \<open>open\<close> handler leaves on the queue: the resume configuration, if any.\<close>

definition resume_packets :: "node \<Rightarrow> packet list" where
  "resume_packets n =
     (case resumeKey n of
        None \<Rightarrow> []
      | Some k \<Rightarrow> if k \<noteq> [] then [OpConfigureResuming k (resumeTout n)] else [])"

text \<open>\<open>reconnect\<close>: schedules the callback and stores the new handle in \<open>reconn\<close>.\<close>

definition reconnect :: "node \<Rightarrow> node" where
  "reconnect n =
     n\<lparr>reconn := Some (fresh n), timers := timers n @ [fresh n], fresh := Suc (fresh n)\<rparr>"

text \<open>The callback that \<open>reconnect\<close> schedules, run when timer \<open>t\<close> expires.\<close>

definition reconnect_callback :: "nat \<Rightarrow> node \<Rightarrow> event list \<Rightarrow> node \<times> event list" where
  "reconnect_callback t n evs =
     (let n1 = n\<lparr>timers := filter (\<lambda>u. u \<noteq> t) (timers n), connected := False, ws := None\<rparr>
      in (connect_node n1, evs @ [NodeReconnect (node_tag n1)]))"

text \<open>The \<open>close\<close> handler.\<close>

definition close_handler :: "int \<Rightarrow> node \<Rightarrow> event list \<Rightarrow> node \<times> event list" where
  "close_handler code n evs =
     (let evs1 = evs @ [NodeClose code (node_tag n)]
      in if code \<noteq> 1000 then (reconnect n, evs1) else (n, evs1))"

text \<open>The \<open>error\<close> handler.\<close>

definition error_handler :: "int \<Rightarrow> node \<Rightarrow> event list \<Rightarrow> node \<times> event list" where
  "error_handler code n evs = (reconnect n, evs @ [NodeError code (node_tag n)])"

text \<open>
  The stats branch of the node's \<open>message\<close> handler: the snapshot becomes the packet, then
  \<open>calcPenalties\<close> reads \<open>stats.cpu.systemLoad\<close>, which throws on a packet without \<open>cpu\<close>;
  the snapshot is stored by then. The penalty score itself is floating-point arithmetic and
  has no field in the model.
\<close>

definition stats_message :: "node_stats \<Rightarrow> node \<Rightarrow> js_error option \<times> node" where
  "stats_message packet n =
     (case cpu packet of
        None \<Rightarrow> (Some (TypeError ''Cannot read properties of undefined''), n\<lparr>stats := packet\<rparr>)
      | Some c \<Rightarrow> (None, n\<lparr>stats := packet\<rparr>))"

section \<open>Player\<close>

record player_state =
  ps_volume :: js_number
  ps_equalizer :: "js_number list"

text \<open>
  The fields of class \<open>Player\<close>. A session carries the state of the node assigned to it;
  \<open>track = None\<close> is the empty object of the constructor, \<open>bands = None\<close> the undefined
  field, and a band array holds \<open>None\<close> at a hole.
\<close>

record player =
  node :: node
  guild :: string
  voiceChannel :: "string option"
  textChannel :: "string option"
  state :: player_state
  trackRepeat :: bool
  queueRepeat :: bool
  playing :: bool
  paused :: bool
  timestamp :: nat
  track :: "track option"
  voiceUpdateState :: "(string \<times> voice_server) option"
  position :: js_number
  volume :: js_number
  queue :: "track list"
  bands :: "js_number option list option"

record voice_channel_struct =
  vc_guild :: string
  vc_textChannel :: "string option"
  vc_voiceChannel :: "string option"
  vc_selfMute :: "bool option"
  vc_selfDeaf :: "bool option"

text \<open>The constructor of \<open>Player\<close>; it does not assign \<open>bands\<close>.\<close>

definition new_player :: "node \<Rightarrow> voice_channel_struct \<Rightarrow> player" where
  "new_player nd options =
     \<lparr> node = nd,
       guild = vc_guild options,
       voiceChannel = vc_voiceChannel options,
       textChannel = vc_textChannel options,
       state = \<lparr> ps_volume = Num 100, ps_equalizer = [] \<rparr>,
       trackRepeat = False,
       queueRepeat = False,
       playing = False,
       paused = False,
       timestamp = 0,
       track = None,
       voiceUpdateState = None,
       position = Num 0,
       volume = Num 100,
       queue = [],
       bands = None \<rparr>"

text \<open>\<open>this.node.send(payload)\<close> from a method of the session.\<close>

definition node_send :: "packet \<Rightarrow> player \<Rightarrow> player" where
  "node_send payload p = p\<lparr>node := do_send payload (node p)\<rparr>"

record play_options =
  po_startTime :: "js_number option"
  po_volume :: "js_number option"
  po_noReplace :: "bool option"
  po_pause :: "bool option"

definition no_options :: play_options where
  "no_options = \<lparr> po_startTime = None, po_volume = None, po_noReplace = None, po_pause = None \<rparr>"

text \<open>
  \<open>play\<close>: \<open>now\<close> is what \<open>Date.now()\<close> returns. The result is \<open>False\<close> for \<open>null\<close> and
  \<open>True\<close> for \<open>this\<close>.
\<close>

definition play :: "nat \<Rightarrow> play_options \<Rightarrow> player \<Rightarrow> bool \<times> player" where
  "play now options p =
     (case queue p of
        [] \<Rightarrow> (False, p)
      | sound # rest \<Rightarrow>
          (True,
           node_send
             (OpPlay (guild p) (track_code sound)
                (nullish (po_startTime options) (Num 0))
                (nullish (po_volume options) (Num 100))
                (nullish (po_noReplace options) False)
                (nullish (po_pause options) False))
             (p\<lparr>playing := True, track := Some sound, timestamp := now\<rparr>)))"

text \<open>
  \<open>stop\<close>: the amount is a whole number of tracks, \<open>None\<close> a missing argument.
  \<open>splice(0, amount - 1)\<close> removes the first \<open>amount - 1\<close> entries.
\<close>

definition stop :: "int option \<Rightarrow> player \<Rightarrow> js_error + player" where
  "stop amount p =
     (case amount of
        None \<Rightarrow> Inr (node_send (OpStop (guild p)) p)
      | Some a \<Rightarrow>
          if a > 1 then
            (if a > int (length (queue p))
             then Inl (RangeError ''Cannot skip more than the queue size'')
             else if a < 1
             then Inl (RangeError ''Cannot skip less than queue size'')
             else Inr (node_send (OpStop (guild p))
                         (p\<lparr>queue := drop (nat (a - 1)) (queue p)\<rparr>)))
          else Inr (node_send (OpStop (guild p)) p))"

text \<open>\<open>pause\<close>; the argument has type \<open>boolean\<close>, so the type guard never fires.\<close>

definition pause :: "bool \<Rightarrow> player \<Rightarrow> player" where
  "pause st p =
     (if queue p = [] then p
      else node_send (OpPause (guild p) st) (p\<lparr>playing := \<not> st, paused := st\<rparr>))"

definition seek :: "js_number \<Rightarrow> player \<Rightarrow> js_error + player" where
  "seek pos p =
     (if pos = NaN then Inl (RangeError ''Position must be a number'')
      else Inr (node_send (OpSeek (guild p) pos) (p\<lparr>position := pos\<rparr>)))"

definition setVolume :: "js_number \<Rightarrow> player \<Rightarrow> js_error + player" where
  "setVolume level p =
     (if level = NaN then Inl (RangeError ''Volume level must be a number'')
      else Inr (node_send (OpVolume (guild p) level) (p\<lparr>volume := level\<rparr>)))"

definition setTrackRepeat :: "bool \<Rightarrow> player \<Rightarrow> player" where
  "setTrackRepeat mode p = p\<lparr>trackRepeat := mode\<rparr>"

definition setQueueRepeat :: "bool \<Rightarrow> player \<Rightarrow> player" where
  "setQueueRepeat mode p = p\<lparr>queueRepeat := mode\<rparr>"

definition removeRepeat :: "player \<Rightarrow> player" where
  "removeRepeat p = p\<lparr>trackRepeat := False, queueRepeat := False\<rparr>"

definition setTextChannel :: "string \<Rightarrow> player \<Rightarrow> player" where
  "setTextChannel channel p = p\<lparr>textChannel := Some channel\<rparr>"

definition setVoiceChannel :: "string \<Rightarrow> player \<Rightarrow> player" where
  "setVoiceChannel channel p = p\<lparr>voiceChannel := Some channel\<rparr>"

subsection \<open>Equalizer\<close>

text \<open>
  A band descriptor is an object: its own properties in insertion order, with distinct keys.
  The sorted key list serialises to \<open>["band","gain"]\<close> exactly when the keys are these two,
  in either order.
\<close>

type_synonym band_descriptor = "(string \<times> js_number) list"

definition valid_band :: "band_descriptor \<Rightarrow> bool" where
  "valid_band d = (map fst d = [''band'', ''gain''] \<or> map fst d = [''gain'', ''band''])"

text \<open>A number is an array index when it is a natural number below \<open>2^32 - 1\<close>.\<close>

fun array_index :: "js_number \<Rightarrow> nat option" where
  "array_index (Num r) =
     (if 0 \<le> r \<and> r = of_int \<lfloor>r\<rfloor> \<and> \<lfloor>r\<rfloor> < 4294967295 then Some (nat \<lfloor>r\<rfloor>) else None)"
| "array_index NaN = None"
| "array_index PosInf = None"
| "array_index NegInf = None"

text \<open>
  \<open>xs[band] = gain\<close> on an array: inside the array the element is replaced, beyond its end
  the array grows and the gap is holes. Any other key becomes a property that is no element.
\<close>

definition assign_band :: "js_number option list \<Rightarrow> js_number \<Rightarrow> js_number \<Rightarrow> js_number option list" where
  "assign_band xs band gain =
     (case array_index band of
        None \<Rightarrow> xs
      | Some k \<Rightarrow> if k < length xs then xs[k := Some gain]
                  else xs @ replicate (k - length xs) None @ [Some gain])"

text \<open>The loop \<open>for (const { band, gain } of bands) this.bands[band] = gain\<close>.\<close>

fun assign_bands :: "band_descriptor list \<Rightarrow> js_number option list \<Rightarrow> js_number option list" where
  "assign_bands [] xs = xs"
| "assign_bands (d # ds) xs =
     (case (map_of d ''band'', map_of d ''gain'') of
        (Some b, Some g) \<Rightarrow> assign_bands ds (assign_band xs b g)
      | _ \<Rightarrow> assign_bands ds xs)"

text \<open>\<open>this.bands.map((gain, band) => ({ band, gain }))\<close>; \<open>map\<close> keeps the holes.\<close>

definition band_objects :: "js_number option list \<Rightarrow> (nat \<times> js_number) option list" where
  "band_objects xs = map (\<lambda>(i, g). map_option (\<lambda>v. (i, v)) g) (enumerate 0 xs)"

text \<open>
  \<open>setEQ\<close>: \<open>bs\<close> is the descriptor list after the unwrapping of a single array argument.
  The first assignment of the loop throws when \<open>this.bands\<close> is undefined.
\<close>

definition setEQ :: "band_descriptor list \<Rightarrow> player \<Rightarrow> js_error + player" where
  "setEQ bs p =
     (if \<not> playing p then Inl (Error ''Nothing is playing'')
      else if bs = [] \<or> \<not> list_all valid_band bs
      then Inl (TypeError ''Bands must be in an object, with band and gain property.'')
      else (case bands p of
              None \<Rightarrow> Inl (TypeError ''Cannot set properties of undefined'')
            | Some xs \<Rightarrow>
                (let ys = assign_bands bs xs
                 in Inr (node_send (OpEqualizer (guild p) (Some (band_objects ys)))
                           (p\<lparr>bands := Some ys\<rparr>)))))"

definition clearEQ :: "player \<Rightarrow> js_error + player" where
  "clearEQ p =
     (if \<not> playing p then Inl (Error ''Nothing is playing'')
      else (let ys = replicate 16 (Some (Num 0))
            in Inr (node_send (OpEqualizer (guild p) (Some (band_objects ys)))
                      (p\<lparr>bands := Some ys\<rparr>))))"

subsection \<open>Filters\<close>

text \<open>What every filter setter does once its sub-object is built.\<close>

definition send_filter :: "filter option \<Rightarrow> player \<Rightarrow> js_error + player" where
  "send_filter f p =
     (if \<not> playing p then Inl (Error ''Nothing is playing'')
      else Inr (node_send (OpFilters (guild p) f) p))"

definition setKaraoke ::
  "js_number option \<Rightarrow> js_number option \<Rightarrow> js_number option \<Rightarrow> js_number option \<Rightarrow>
   player \<Rightarrow> js_error + player" where
  "setKaraoke level monoLevel filterBand filterWidth p =
     send_filter (Some (Karaoke (or_default level (Num 1)) (or_default monoLevel (Num 1))
                    (or_default filterBand (Num 220)) (or_default filterWidth (Num 100)))) p"

definition setTimeScale ::
  "js_number option \<Rightarrow> js_number option \<Rightarrow> js_number option \<Rightarrow> player \<Rightarrow> js_error + player" where
  "setTimeScale speed pitch rate p =
     send_filter (Some (Timescale (or_default speed (Num 1)) (or_default pitch (Num 1))
                    (or_default rate (Num 1)))) p"

definition setTremolo :: "js_number option \<Rightarrow> js_number option \<Rightarrow> player \<Rightarrow> js_error + player" where
  "setTremolo freq depth p =
     send_filter (Some (Tremolo (or_default freq (Num 2)) (or_default depth (Num (1 / 2))))) p"

definition setVibrato :: "js_number option \<Rightarrow> js_number option \<Rightarrow> player \<Rightarrow> js_error + player" where
  "setVibrato freq depth p =
     send_filter (Some (Vibrato (or_default freq (Num 2)) (or_default depth (Num (1 / 2))))) p"

definition setRotation :: "js_number option \<Rightarrow> player \<Rightarrow> js_error + player" where
  "setRotation rotation p = send_filter (Some (Rotation (or_default rotation (Num 0)))) p"

definition setDistortion ::
  "js_number option \<Rightarrow> js_number option \<Rightarrow> js_number option \<Rightarrow> js_number option \<Rightarrow>
   js_number option \<Rightarrow> js_number option \<Rightarrow> js_number option \<Rightarrow> js_number option \<Rightarrow>
   player \<Rightarrow> js_error + player" where
  "setDistortion sinOffset sinScale cosOffset cosScale tanOffset tanScale offset scale p =
     send_filter (Some (Distortion
        (or_default sinOffset (Num 0)) (or_default sinScale (Num 1))
        (or_default cosOffset (Num 0)) (or_default cosScale (Num 1))
        (or_default tanOffset (Num 0)) (or_default tanScale (Num 1))
        (or_default offset (Num 0)) (or_default scale (Num 1)))) p"

text \<open>The object literal lists \<open>rightToLeft\<close> before \<open>rightToRight\<close>.\<close>

definition setChannelMix ::
  "js_number option \<Rightarrow> js_number option \<Rightarrow> js_number option \<Rightarrow> js_number option \<Rightarrow>
   player \<Rightarrow> js_error + player" where
  "setChannelMix leftToLeft leftToRight rightToRight rightToLeft p =
     send_filter (Some (ChannelMix
        (or_default leftToLeft (Num 1)) (or_default leftToRight (Num 0))
        (or_default rightToLeft (Num 0)) (or_default rightToRight (Num 1)))) p"

definition setLowPass :: "js_number option \<Rightarrow> player \<Rightarrow> js_error + player" where
  "setLowPass smooth p = send_filter (Some (LowPass (or_default smooth (Num 20)))) p"

definition cleanFilters :: "player \<Rightarrow> js_error + player" where
  "cleanFilters p = send_filter None p"

text \<open>\<open>connect\<close>: stores the voice-link data and sends \<open>voiceUpdate\<close>.\<close>

definition connect :: "string \<times> voice_server \<Rightarrow> player \<Rightarrow> player" where
  "connect data p =
     node_send (OpVoiceUpdate (guild p) (fst data) (snd data)) (p\<lparr>voiceUpdateState := Some data\<rparr>)"

section \<open>Manager state and the session's calls into it\<close>

text \<open>
  The fields of class \<open>Manager\<close>. \<open>nodes\<close> is a JavaScript \<open>Map\<close>, kept as an association
  list in insertion order; the registry holds each session by value, and an operation on a
  session returns the session's new state. \<open>emitted\<close> and \<open>transferred\<close> record the calls
  of \<open>emit\<close> and of the host's \<open>transfer\<close> callback.
\<close>

record manager =
  listOfNodes :: "node_options list"
  nodes :: "(string \<times> node) list"
  players :: "string \<rightharpoonup> player"
  voiceStates :: "string \<rightharpoonup> voice_state"
  voiceServers :: "string \<rightharpoonup> voice_server"
  user :: "string option"
  emitted :: "event list"
  transferred :: "gateway list"

text \<open>The constructor of \<open>Manager\<close>, for a client and a \<open>transfer\<close> callback that are present.\<close>

definition new_manager :: "node_options list \<Rightarrow> manager" where
  "new_manager ns =
     \<lparr> listOfNodes = ns, nodes = [], players = Map.empty, voiceStates = Map.empty,
       voiceServers = Map.empty, user = None, emitted = [], transferred = [] \<rparr>"

definition emit :: "event \<Rightarrow> manager \<Rightarrow> manager" where
  "emit e m = m\<lparr>emitted := emitted m @ [e]\<rparr>"

definition transfer :: "gateway \<Rightarrow> manager \<Rightarrow> manager" where
  "transfer g m = m\<lparr>transferred := transferred m @ [g]\<rparr>"

text \<open>\<open>disconnect\<close>: the result is \<open>False\<close> for \<open>null\<close> and \<open>True\<close> for \<open>this\<close>.\<close>

definition disconnect :: "player \<Rightarrow> manager \<Rightarrow> bool \<times> player \<times> manager" where
  "disconnect p m =
     (if \<not> truthy_str (voiceChannel p) then (False, p, m)
      else (let p1 = (if paused p then pause False p else p);
                m1 = transfer (Op4 (guild p1) None False False) m
            in (True, p1\<lparr>voiceChannel := None\<rparr>, m1)))"

text \<open>\<open>destroy\<close>.\<close>

definition destroy :: "player \<Rightarrow> manager \<Rightarrow> player \<times> manager" where
  "destroy p m =
     (case disconnect p m of
        (r, p1, m1) \<Rightarrow>
          (let p2 = node_send (OpDestroy (guild p1)) p1;
               m2 = emit (PlayerDestroy (guild p2)) m1
           in (p2, m2\<lparr>players := (players m2)(guild p2 := None)\<rparr>)))"

record lavalink_options =
  ev_type :: string
  ev_reason :: string
  ev_code :: int
  ev_guildId :: string

text \<open>\<open>this.queue.shift()\<close>: nothing happens on an empty queue.\<close>

definition shift :: "player \<Rightarrow> player" where
  "shift p = p\<lparr>queue := tl (queue p)\<rparr>"

text \<open>
  The two branches of the \<open>TrackEndEvent\<close> case that empty the queue: \<open>stop()\<close> is called
  without an argument.
\<close>

definition stop_and_clear :: "player \<Rightarrow> js_error + player" where
  "stop_and_clear p =
     (case stop None (p\<lparr>queue := []\<rparr>) of
        Inl e \<Rightarrow> Inl e
      | Inr p1 \<Rightarrow> Inr (p1\<lparr>playing := False, paused := False\<rparr>))"

text \<open>The \<open>TrackEndEvent\<close> case of \<open>lavalinkEvent\<close>, branch by branch.\<close>

definition track_end :: "nat \<Rightarrow> string \<Rightarrow> player \<Rightarrow> manager \<Rightarrow> js_error + (player \<times> manager)" where
  "track_end now reason p m =
     (if trackRepeat p then Inr (snd (play now no_options p), m)
      else if queueRepeat p \<and> length (queue p) \<le> 1 \<and> reason = ''FINISHED''
      then Inr (snd (play now no_options p), m)
      else if length (queue p) \<le> 1 \<and> reason = ''FINISHED''
      then (let m1 = emit (QueueEnd (guild p) (track p)) m
            in case stop_and_clear p of Inl e \<Rightarrow> Inl e | Inr p1 \<Rightarrow> Inr (p1, m1))
      else if length (queue p) \<ge> 2 \<and> reason = ''STOPPED''
      then Inr (snd (play now no_options (shift p)), m)
      else if length (queue p) \<le> 1 \<and> reason = ''STOPPED''
      then (case stop_and_clear p of Inl e \<Rightarrow> Inl e | Inr p1 \<Rightarrow> Inr (p1, m))
      else (let p1 = (if length (queue p) \<ge> 2 then snd (play now no_options (shift p)) else p)
            in Inr (p1, emit (TrackEnd (guild p1) (track p1)) m)))"

text \<open>\<open>lavalinkEvent\<close>: the \<open>switch\<close> on the event type.\<close>

definition lavalinkEvent ::
  "nat \<Rightarrow> lavalink_options \<Rightarrow> player \<Rightarrow> manager \<Rightarrow> js_error + (player \<times> manager)" where
  "lavalinkEvent now data p m =
     (if ev_type data = ''TrackStartEvent''
      then Inr (p, emit (TrackStart (guild p) (track p)) m)
      else if ev_type data = ''TrackEndEvent''
      then track_end now (ev_reason data) p m
      else if ev_type data = ''TrackStuckEvent''
      then (let p1 = shift p in Inr (p1, emit (TrackStuck (guild p1) (track p1)) m))
      else if ev_type data = ''TrackExceptionEvent''
      then (let p1 = shift p in Inr (p1, emit (TrackException (guild p1) (track p1)) m))
      else if ev_type data = ''WebSocketClosedEvent''
      then (let m1 = (if ev_code data \<in> set [4015, 4009]
                      then transfer (Op4 (ev_guildId data) (voiceChannel p) False False) m
                      else m)
            in Inr (p, emit (SocketClosed (guild p) (ev_code data)) m1))
      else Inl (Error (''An unknown event was passed, event: '' @ ev_type data)))"

text \<open>The \<open>playerUpdate\<close> listener: volume and equalizer of the packet override the stored ones.\<close>

definition playerUpdate :: "js_number option \<Rightarrow> js_number list option \<Rightarrow> player \<Rightarrow> player" where
  "playerUpdate vol eq p =
     p\<lparr>state := \<lparr> ps_volume = nullish vol (ps_volume (state p)),
                   ps_equalizer = nullish eq (ps_equalizer (state p)) \<rparr>\<rparr>"

section \<open>Manager\<close>

subsection \<open>Arithmetic on numbers\<close>

text \<open>
  Division, multiplication and subtraction as IEEE 754 defines them on the special values;
  there is one zero, taken as positive.
\<close>

fun js_div :: "js_number \<Rightarrow> js_number \<Rightarrow> js_number" where
  "js_div (Num a) (Num b) =
     (if b \<noteq> 0 then Num (a / b) else if a = 0 then NaN else if 0 < a then PosInf else NegInf)"
| "js_div (Num a) PosInf = Num 0"
| "js_div (Num a) NegInf = Num 0"
| "js_div PosInf (Num b) = (if 0 \<le> b then PosInf else NegInf)"
| "js_div NegInf (Num b) = (if 0 \<le> b then NegInf else PosInf)"
| "js_div _ _ = NaN"

fun js_mul :: "js_number \<Rightarrow> js_number \<Rightarrow> js_number" where
  "js_mul (Num a) (Num b) = Num (a * b)"
| "js_mul (Num a) PosInf = (if a = 0 then NaN else if 0 < a then PosInf else NegInf)"
| "js_mul (Num a) NegInf = (if a = 0 then NaN else if 0 < a then NegInf else PosInf)"
| "js_mul PosInf (Num b) = (if b = 0 then NaN else if 0 < b then PosInf else NegInf)"
| "js_mul NegInf (Num b) = (if b = 0 then NaN else if 0 < b then NegInf else PosInf)"
| "js_mul PosInf PosInf = PosInf"
| "js_mul PosInf NegInf = NegInf"
| "js_mul NegInf PosInf = NegInf"
| "js_mul NegInf NegInf = PosInf"
| "js_mul _ _ = NaN"

fun js_sub :: "js_number \<Rightarrow> js_number \<Rightarrow> js_number" where
  "js_sub (Num a) (Num b) = Num (a - b)"
| "js_sub (Num a) PosInf = NegInf"
| "js_sub (Num a) NegInf = PosInf"
| "js_sub PosInf (Num b) = PosInf"
| "js_sub NegInf (Num b) = NegInf"
| "js_sub PosInf NegInf = PosInf"
| "js_sub NegInf PosInf = NegInf"
| "js_sub _ _ = NaN"

text \<open>Whether the value a comparison function returned is greater than zero; \<open>NaN\<close> counts as \<open>+0\<close>.\<close>

fun positive :: "js_number \<Rightarrow> bool" where
  "positive (Num r) = (0 < r)"
| "positive PosInf = True"
| "positive _ = False"

subsection \<open>Sorting with a comparison function\<close>

text \<open>
  \<open>Array.prototype.sort\<close> is stable, and on a consistent comparison function its result is
  fixed by the language. The model is the insertion sort: an element goes before the first
  later element that the comparison does not put ahead of it. On an inconsistent comparison
  function the language leaves the order to the engine; the insertion sort then gives one
  order that the language allows, which need not be the engine's.
\<close>

fun insert_by :: "('a \<Rightarrow> 'a \<Rightarrow> js_number) \<Rightarrow> 'a \<Rightarrow> 'a list \<Rightarrow> 'a list" where
  "insert_by cmp x [] = [x]"
| "insert_by cmp x (y # ys) =
     (if positive (cmp x y) then y # insert_by cmp x ys else x # y # ys)"

fun js_sort :: "('a \<Rightarrow> 'a \<Rightarrow> js_number) \<Rightarrow> 'a list \<Rightarrow> 'a list" where
  "js_sort cmp [] = []"
| "js_sort cmp (x # xs) = insert_by cmp x (js_sort cmp xs)"

subsection \<open>Node registry and selection\<close>

text \<open>\<open>Map.prototype.set\<close>: a known key keeps its place, a new key goes last.\<close>

fun map_set :: "'k \<Rightarrow> 'v \<Rightarrow> ('k \<times> 'v) list \<Rightarrow> ('k \<times> 'v) list" where
  "map_set k v [] = [(k, v)]"
| "map_set k v ((k', v') # kvs) =
     (if k = k' then (k, v) # kvs else (k', v') # map_set k v kvs)"

text \<open>\<open>id || host\<close>.\<close>

fun or_host :: "string option \<Rightarrow> string \<Rightarrow> string" where
  "or_host None h = h"
| "or_host (Some i) h = (if i \<noteq> [] then i else h)"

text \<open>\<open>buildNode\<close>: registers under the id when it is a non-empty string, else under the host.\<close>

definition buildNode :: "node_options \<Rightarrow> manager \<Rightarrow> node \<times> manager" where
  "buildNode options m =
     (let nd = connect_node (new_node options);
          key = or_host (opt_id options) (opt_host options)
      in (nd, m\<lparr>nodes := map_set key nd (nodes m)\<rparr>))"

fun build_all :: "node_options list \<Rightarrow> manager \<Rightarrow> manager" where
  "build_all [] m = m"
| "build_all (options # rest) m = build_all rest (snd (buildNode options m))"

definition start :: "string option \<Rightarrow> manager \<Rightarrow> js_error + manager" where
  "start botID m =
     (if \<not> truthy_str botID
      then Inl (Error ''BotID is missing, provide it to start function'')
      else Inr (build_all (listOfNodes m) (m\<lparr>user := botID\<rparr>)))"

text \<open>
  The sort key of \<open>leastUsedNodes\<close>: \<open>stats.cpu ? (systemLoad / cores) * 100 : 0\<close>, on exact
  values: two keys that only the rounding of doubles would make equal stay apart here.
\<close>

definition node_load :: "node \<Rightarrow> js_number" where
  "node_load n =
     (case cpu (stats n) of
        Some c \<Rightarrow> js_mul (js_div (systemLoad c) (cores c)) (Num 100)
      | None \<Rightarrow> Num 0)"

definition load_compare :: "node \<Rightarrow> node \<Rightarrow> js_number" where
  "load_compare a b = js_sub (node_load a) (node_load b)"

text \<open>The sort key of a node whose key is an ordinary number.\<close>

definition finite_load :: "node \<Rightarrow> rat" where
  "finite_load n = (case node_load n of Num r \<Rightarrow> r | _ \<Rightarrow> 0)"

text \<open>The getter \<open>leastUsedNodes\<close>; it reads the map on every call.\<close>

definition leastUsedNodes :: "manager \<Rightarrow> node list" where
  "leastUsedNodes m = js_sort load_compare (filter connected (map snd (nodes m)))"

datatype spawned = Session player | Registered node

text \<open>\<open>spawnPlayer\<close>.\<close>

definition spawnPlayer :: "voice_channel_struct \<Rightarrow> manager \<Rightarrow> js_error + (spawned \<times> manager)" where
  "spawnPlayer data m =
     (case map_of (nodes m) (vc_guild data) of
        Some spawnedNodes \<Rightarrow> Inr (Registered spawnedNodes, m)
      | None \<Rightarrow>
          (case leastUsedNodes m of
             [] \<Rightarrow> Inl (Error ''No nodes are connected'')
           | least # rest \<Rightarrow>
               (case map_of (nodes m) (or_host (node_id least) (host least)) of
                  None \<Rightarrow> Inl (Error ''No nodes are connected'')
                | Some nd \<Rightarrow>
                    (let pl = new_player nd data
                     in Inr (Session pl, m\<lparr>players := (players m)(vc_guild data \<mapsto> pl)\<rparr>)))))"

text \<open>\<open>create\<close>.\<close>

definition create :: "voice_channel_struct \<Rightarrow> manager \<Rightarrow> js_error + (spawned \<times> manager)" where
  "create data m =
     (case players m (vc_guild data) of
        Some pl \<Rightarrow> Inr (Session pl, m)
      | None \<Rightarrow>
          spawnPlayer data
            (transfer (Op4 (vc_guild data) (vc_voiceChannel data)
                         (nullish (vc_selfMute data) False)
                         (nullish (vc_selfDeaf data) False)) m))"

definition get :: "string \<Rightarrow> manager \<Rightarrow> player option" where
  "get guildId m = players m guildId"

subsection \<open>Voice correlation\<close>

text \<open>
  \<open>connectionProcess\<close>: the session id is the stored voice state's one when there is a voice
  state, else the one of the session's \<open>voiceUpdateState\<close>; reading the latter throws when it
  is undefined.
\<close>

definition connectionProcess :: "string \<Rightarrow> manager \<Rightarrow> js_error + (bool \<times> manager)" where
  "connectionProcess guildId m =
     (case voiceServers m guildId of
        None \<Rightarrow> Inr (False, m)
      | Some server \<Rightarrow>
          (case players m guildId of
             None \<Rightarrow> Inr (False, m)
           | Some pl \<Rightarrow>
               (case (case voiceStates m guildId of
                        Some st \<Rightarrow> Some (session_id st)
                      | None \<Rightarrow> map_option fst (voiceUpdateState pl)) of
                  None \<Rightarrow> Inl (TypeError ''Cannot read properties of undefined'')
                | Some sid \<Rightarrow>
                    Inr (True, m\<lparr>players := (players m)(guildId \<mapsto> connect (sid, server) pl)\<rparr>))))"

text \<open>
  \<open>voiceServersUpdate\<close>: the server half is stored first, so it stays stored when
  \<open>connectionProcess\<close> throws. The result is the error thrown or the value returned,
  together with the manager as the call left it.
\<close>

definition voiceServersUpdate :: "voice_server \<Rightarrow> manager \<Rightarrow> (js_error + bool) \<times> manager" where
  "voiceServersUpdate data m =
     (let m1 = m\<lparr>voiceServers := (voiceServers m)(vs_guild_id data \<mapsto> data)\<rparr>
      in case connectionProcess (vs_guild_id data) m1 of
           Inl e \<Rightarrow> (Inl e, m1)
         | Inr (r, m2) \<Rightarrow> (Inr r, m2))"

text \<open>
  \<open>voiceStateUpdate\<close>: the value is \<open>None\<close> where the source returns nothing. The state half
  is stored before \<open>connectionProcess\<close> runs.
\<close>

definition voiceStateUpdate ::
  "voice_state \<Rightarrow> manager \<Rightarrow> (js_error + bool option) \<times> manager" where
  "voiceStateUpdate data m =
     (if Some (user_id data) \<noteq> user m then (Inr None, m)
      else if truthy_str (channel_id data)
      then (let m1 = m\<lparr>voiceStates := (voiceStates m)(guild_id data \<mapsto> data)\<rparr>
            in case connectionProcess (guild_id data) m1 of
                 Inl e \<Rightarrow> (Inl e, m1)
               | Inr (r, m2) \<Rightarrow> (Inr (Some r), m2))
      else (Inr None, m\<lparr>voiceServers := (voiceServers m)(guild_id data := None),
                          voiceStates := (voiceStates m)(guild_id data := None)\<rparr>))"

datatype gateway_packet =
    VOICE_SERVER_UPDATE voice_server
  | VOICE_STATE_UPDATE voice_state
  | OTHER_PACKET string

text \<open>\<open>packetUpdate\<close> returns nothing: the result is the error thrown, if any, and the manager.\<close>

fun packetUpdate :: "gateway_packet \<Rightarrow> manager \<Rightarrow> js_error option \<times> manager" where
  "packetUpdate (VOICE_SERVER_UPDATE d) m =
     (case voiceServersUpdate d m of (Inl e, m1) \<Rightarrow> (Some e, m1) | (Inr r, m1) \<Rightarrow> (None, m1))"
| "packetUpdate (VOICE_STATE_UPDATE d) m =
     (case voiceStateUpdate d m of (Inl e, m1) \<Rightarrow> (Some e, m1) | (Inr r, m1) \<Rightarrow> (None, m1))"
| "packetUpdate (OTHER_PACKET t) m = (None, m)"

text \<open>
  The host's \<open>rawWS\<close> listener hands every gateway packet to \<open>packetUpdate\<close>. A throw ends
  the run of the listener for that packet only: the next packet meets the manager as the
  throwing call left it. The errors thrown are collected in order.
\<close>

fun packets :: "gateway_packet list \<Rightarrow> manager \<Rightarrow> js_error list \<times> manager" where
  "packets [] m = ([], m)"
| "packets (pk # pks) m =
     (case packetUpdate pk m of
        (None, m1) \<Rightarrow> packets pks m1
      | (Some e, m1) \<Rightarrow> (case packets pks m1 of (es, m2) \<Rightarrow> (e # es, m2)))"

section \<open>Calls on a session\<close>

text \<open>
  The public operations of a session, the two listeners of its constructor, and the host's
  \<open>player.queue.push(track)\<close>.
\<close>

datatype player_op =
    DoPlay nat play_options
  | DoStop "int option"
  | DoPause bool
  | DoSeek js_number
  | DoSetVolume js_number
  | DoSetTrackRepeat bool
  | DoSetQueueRepeat bool
  | DoRemoveRepeat
  | DoSetTextChannel string
  | DoSetVoiceChannel string
  | DoSetEQ "band_descriptor list"
  | DoClearEQ
  | DoSetKaraoke "js_number option" "js_number option" "js_number option" "js_number option"
  | DoSetTimeScale "js_number option" "js_number option" "js_number option"
  | DoSetTremolo "js_number option" "js_number option"
  | DoSetVibrato "js_number option" "js_number option"
  | DoSetRotation "js_number option"
  | DoSetDistortion "js_number option" "js_number option" "js_number option" "js_number option"
      "js_number option" "js_number option" "js_number option" "js_number option"
  | DoSetChannelMix "js_number option" "js_number option" "js_number option" "js_number option"
  | DoSetLowPass "js_number option"
  | DoCleanFilters
  | DoConnect string voice_server
  | DoDisconnect
  | DoDestroy
  | DoLavalinkEvent nat lavalink_options
  | DoPlayerUpdate "js_number option" "js_number list option"
  | DoQueuePush track

text \<open>A method that does not touch the manager, run in a state of session and manager.\<close>

definition on_player ::
  "(player \<Rightarrow> js_error + player) \<Rightarrow> player \<times> manager \<Rightarrow> js_error + (player \<times> manager)" where
  "on_player f s = (case f (fst s) of Inl e \<Rightarrow> Inl e | Inr p \<Rightarrow> Inr (p, snd s))"

fun call :: "player_op \<Rightarrow> player \<times> manager \<Rightarrow> js_error + (player \<times> manager)" where
  "call (DoPlay now options) s = Inr (snd (play now options (fst s)), snd s)"
| "call (DoStop amount) s = on_player (stop amount) s"
| "call (DoPause st) s = Inr (pause st (fst s), snd s)"
| "call (DoSeek pos) s = on_player (seek pos) s"
| "call (DoSetVolume level) s = on_player (setVolume level) s"
| "call (DoSetTrackRepeat mode) s = Inr (setTrackRepeat mode (fst s), snd s)"
| "call (DoSetQueueRepeat mode) s = Inr (setQueueRepeat mode (fst s), snd s)"
| "call DoRemoveRepeat s = Inr (removeRepeat (fst s), snd s)"
| "call (DoSetTextChannel c) s = Inr (setTextChannel c (fst s), snd s)"
| "call (DoSetVoiceChannel c) s = Inr (setVoiceChannel c (fst s), snd s)"
| "call (DoSetEQ bs) s = on_player (setEQ bs) s"
| "call DoClearEQ s = on_player clearEQ s"
| "call (DoSetKaraoke a b c d) s = on_player (setKaraoke a b c d) s"
| "call (DoSetTimeScale a b c) s = on_player (setTimeScale a b c) s"
| "call (DoSetTremolo a b) s = on_player (setTremolo a b) s"
| "call (DoSetVibrato a b) s = on_player (setVibrato a b) s"
| "call (DoSetRotation a) s = on_player (setRotation a) s"
| "call (DoSetDistortion a b c d e f g h) s = on_player (setDistortion a b c d e f g h) s"
| "call (DoSetChannelMix a b c d) s = on_player (setChannelMix a b c d) s"
| "call (DoSetLowPass a) s = on_player (setLowPass a) s"
| "call DoCleanFilters s = on_player cleanFilters s"
| "call (DoConnect sid server) s = Inr (connect (sid, server) (fst s), snd s)"
| "call DoDisconnect s = Inr (snd (disconnect (fst s) (snd s)))"
| "call DoDestroy s = Inr (destroy (fst s) (snd s))"
| "call (DoLavalinkEvent now data) s = lavalinkEvent now data (fst s) (snd s)"
| "call (DoPlayerUpdate vol eq) s = Inr (playerUpdate vol eq (fst s), snd s)"
| "call (DoQueuePush t) s = Inr ((fst s)\<lparr>queue := queue (fst s) @ [t]\<rparr>, snd s)"

text \<open>
  A sequence of calls. Every method throws before its first assignment, so a call that
  throws leaves the state as it was, and the host goes on from there.
\<close>

fun calls :: "player_op list \<Rightarrow> player \<times> manager \<Rightarrow> player \<times> manager" where
  "calls [] s = s"
| "calls (c # cs) s = calls cs (case call c s of Inl e \<Rightarrow> s | Inr s' \<Rightarrow> s')"

section \<open>The effects of the end-of-track branches\<close>

text \<open>
  \<open>this.play()\<close> without options: \<open>play\<close> is sent for the head of the queue, which becomes
  the current track, whether or not it is the track that ended; on an empty queue nothing
  happens. The head is the track that ended unless \<open>stop\<close> with a skip count, a stuck track
  or a track exception has moved it since that track started.
\<close>

definition play_head :: "nat \<Rightarrow> player \<Rightarrow> player" where
  "play_head now p =
     (case queue p of
        [] \<Rightarrow> p
      | t # ts \<Rightarrow>
          (p\<lparr>playing := True, track := Some t, timestamp := now,
             node := do_send (OpPlay (guild p) (track_code t) (Num 0) (Num 100) False False)
                       (node p)\<rparr>))"

text \<open>\<open>this.queue.shift()\<close> followed by \<open>this.play()\<close>: drop the head and play the next track.\<close>

definition drop_head_play_next :: "nat \<Rightarrow> player \<Rightarrow> player" where
  "drop_head_play_next now p = play_head now (p\<lparr>queue := tl (queue p)\<rparr>)"

text \<open>Clear the queue, send \<open>stop\<close>, clear the playing and paused flags.\<close>

definition clear_and_stop :: "player \<Rightarrow> player" where
  "clear_and_stop p =
     p\<lparr>queue := [], playing := False, paused := False,
       node := do_send (OpStop (guild p)) (node p)\<rparr>"

section \<open>Example values\<close>

definition example_options :: node_options where
  "example_options =
     \<lparr> opt_id = Some ''Node 1'', opt_host = ''localhost'', opt_port = ''1337'',
       opt_auth = Some ''test'', opt_secure = Some False, opt_reconnAfter = None,
       opt_resumeKey = None, opt_resumeTout = None, opt_redirects = None \<rparr>"

text \<open>A node whose socket is open on the client side, before the \<open>open\<close> handler has run.\<close>

definition example_node :: node where
  "example_node = connect_node (new_node example_options)"

definition example_track :: "string \<Rightarrow> track" where
  "example_track code =
     new_track \<lparr> info_uri = ''https://example.org/'' @ code, info_title = code,
                 info_author = ''author'', info_length = Num 1000, info_identifier = code,
                 info_isStream = False, info_isSeekable = True \<rparr> code"

definition example_struct :: voice_channel_struct where
  "example_struct =
     \<lparr> vc_guild = ''1'', vc_textChannel = Some ''text'', vc_voiceChannel = Some ''voice'',
       vc_selfMute = Some False, vc_selfDeaf = Some True \<rparr>"

definition example_player :: player where
  "example_player = new_player example_node example_struct"

text \<open>A session with three tracks queued, the first of them playing.\<close>

definition example_playing :: player where
  "example_playing =
     example_player\<lparr>queue := [example_track ''a'', example_track ''b'', example_track ''c''],
                     playing := True, track := Some (example_track ''a'')\<rparr>"

definition example_manager :: manager where
  "example_manager = (new_manager [example_options])\<lparr>players := [''1'' \<mapsto> example_player]\<rparr>"

text \<open>A \<open>TrackEndEvent\<close> for guild 1 with the given reason.\<close>

definition track_end_event :: "string \<Rightarrow> lavalink_options" where
  "track_end_event reason =
     \<lparr> ev_type = ''TrackEndEvent'', ev_reason = reason, ev_code = 0, ev_guildId = ''1'' \<rparr>"

definition example_band :: band_descriptor where
  "example_band = [(''band'', Num 3), (''gain'', Num (1 / 4))]"


definition example_server :: "string \<Rightarrow> voice_server" where
  "example_server token = \<lparr> vs_guild_id = ''1'', vs_token = token, vs_endpoint = ''eu.example.org'' \<rparr>"

definition example_joined :: voice_state where
  "example_joined =
     \<lparr> user_id = ''bot'', channel_id = Some ''voice'', guild_id = ''1'', session_id = ''s1'' \<rparr>"

definition example_left :: voice_state where
  "example_left =
     \<lparr> user_id = ''bot'', channel_id = None, guild_id = ''1'', session_id = ''s1'' \<rparr>"

text \<open>A manager that knows the bot's id and holds a session for guild 1.\<close>

definition example_started :: manager where
  "example_started = example_manager\<lparr>user := Some ''bot''\<rparr>"

text \<open>The manager after the bot joined a channel, was linked, and left the channel again.\<close>

definition example_after_leave :: manager where
  "example_after_leave =
     example_started\<lparr>players := [''1'' \<mapsto> connect (''s1'', example_server ''t1'') example_player]\<rparr>"

text \<open>
  Two nodes in registration order, both connected: the first has received stats (load 0.5 on
  4 cores), the second has not.
\<close>

definition example_busy :: node where
  "example_busy =
     snd (stats_message
       \<lparr> stats_players = Num 1, playingPlayers = Num 1, uptime = Num 60000,
         memory = None,
         cpu = Some \<lparr> cores = Num 4, systemLoad = Num (1 / 2), lavalinkLoad = Num (1 / 10) \<rparr>,
         frameStats = None \<rparr>
       (fst (open_handler (connect_node (new_node (example_options\<lparr>opt_id := Some ''A''\<rparr>))) [])))"

definition example_idle :: node where
  "example_idle =
     fst (open_handler (connect_node (new_node (example_options\<lparr>opt_id := Some ''B''\<rparr>))) [])"

definition example_registry :: manager where
  "example_registry =
     (new_manager [])\<lparr>nodes := [(''A'', example_busy), (''B'', example_idle)]\<rparr>"

section \<open>The outbound backlog\<close>

lemma send_not_connected:
  "\<not> connected n \<Longrightarrow>
     send p n = (Some (Suc (length (packetQueue n))), n\<lparr>packetQueue := packetQueue n @ [p]\<rparr>)"
  by (simp add: send_def Let_def)

lemma send_all_backlog:
  "\<not> connected n \<Longrightarrow>
     fst (send_all ps n) = map (\<lambda>i. Some (length (packetQueue n) + i)) [1..<Suc (length ps)]
     \<and> snd (send_all ps n) = n\<lparr>packetQueue := packetQueue n @ ps\<rparr>"
proof (induction ps arbitrary: n)
  case Nil
  then show ?case by simp
next
  case (Cons p ps)
  let ?n1 = "n\<lparr>packetQueue := packetQueue n @ [p]\<rparr>"
  have s: "send p n = (Some (Suc (length (packetQueue n))), ?n1)"
    using Cons.prems by (rule send_not_connected)
  have nc: "\<not> connected ?n1" using Cons.prems by simp
  note ih = Cons.IH [OF nc]
  have m: "map (\<lambda>i. Some (length (packetQueue n) + i)) [1..<Suc (length (p # ps))]
           = Some (Suc (length (packetQueue n))) #
             map (\<lambda>i. Some (length (packetQueue ?n1) + i)) [1..<Suc (length ps)]"
    by (simp add: upt_conv_Cons map_Suc_upt [symmetric] del: upt_Suc)
  show ?case using ih s m by (simp add: case_prod_beta del: upt_Suc)
qed

lemma open_handler_backlog:
  "\<not> connected n \<Longrightarrow>
     connected (fst (open_handler n evs))
     \<and> wire (fst (open_handler n evs)) = wire n
     \<and> packetQueue (fst (open_handler n evs)) = packetQueue n @ resume_packets n
     \<and> ws (fst (open_handler n evs)) = ws n"
  by (auto simp: open_handler_def resume_packets_def do_send_def send_def Let_def
           split: option.splits)

lemma send_connected:
  "connected n \<Longrightarrow>
     send p n = (None, n\<lparr>wire := wire n @ (case ws n of None \<Rightarrow> [] | Some s \<Rightarrow> [p])\<rparr>)"
  by (simp add: send_def sendPacket_def split: option.splits)

text \<open>
  Claim C3, as the code has it. While the node is not connected, each \<open>send\<close> appends its
  payload to the backlog and returns the new length, so \<open>N\<close> payloads end up on it in order.
  The \<open>open\<close> handler marks the node connected and transmits nothing: the backlog stays as it
  is (with the resume configuration appended when a resume key is set), and a later \<open>send\<close>
  transmits its own payload only.
\<close>

theorem backlog_appended_not_flushed:
  assumes "\<not> connected n"
  shows "fst (send_all ps n) = map (\<lambda>i. Some (length (packetQueue n) + i)) [1..<Suc (length ps)]
     \<and> packetQueue (snd (send_all ps n)) = packetQueue n @ ps
     \<and> wire (snd (send_all ps n)) = wire n
     \<and> connected (fst (open_handler (snd (send_all ps n)) evs))
     \<and> wire (fst (open_handler (snd (send_all ps n)) evs)) = wire n
     \<and> packetQueue (fst (open_handler (snd (send_all ps n)) evs))
         = packetQueue n @ ps @ resume_packets n
     \<and> wire (snd (send q (fst (open_handler (snd (send_all ps n)) evs))))
         = wire n @ (case ws n of None \<Rightarrow> [] | Some s \<Rightarrow> [q])
     \<and> packetQueue (snd (send q (fst (open_handler (snd (send_all ps n)) evs))))
         = packetQueue n @ ps @ resume_packets n"
proof -
  let ?n1 = "snd (send_all ps n)"
  let ?n2 = "fst (open_handler ?n1 evs)"
  have a: "fst (send_all ps n) = map (\<lambda>i. Some (length (packetQueue n) + i)) [1..<Suc (length ps)]"
    and b: "?n1 = n\<lparr>packetQueue := packetQueue n @ ps\<rparr>"
    using send_all_backlog [OF assms, of ps] by simp_all
  have nc: "\<not> connected ?n1" using assms b by simp
  have r: "resume_packets ?n1 = resume_packets n"
    unfolding b by (simp add: resume_packets_def split: option.splits)
  have c: "connected ?n2" and d: "wire ?n2 = wire n"
    and e: "packetQueue ?n2 = packetQueue n @ ps @ resume_packets n" and f: "ws ?n2 = ws n"
    using open_handler_backlog [OF nc, of evs] b r by simp_all
  have g: "snd (send q ?n2) = ?n2\<lparr>wire := wire ?n2 @ (case ws ?n2 of None \<Rightarrow> [] | Some s \<Rightarrow> [q])\<rparr>"
    using send_connected [OF c, of q] by simp
  have h: "wire (snd (send q ?n2)) = wire n @ (case ws n of None \<Rightarrow> [] | Some s \<Rightarrow> [q])"
    by (subst g) (simp add: d f)
  have i: "packetQueue (snd (send q ?n2)) = packetQueue n @ ps @ resume_packets n"
    by (subst g) (simp add: e)
  show ?thesis using a b c d e h i by simp
qed

theorem backlog_appended_not_flushed_witness:
  "\<not> connected example_node
   \<and> fst (send_all [OpStop ''1'', OpDestroy ''1''] example_node) = [Some 1, Some 2]
   \<and> packetQueue (fst (open_handler (snd (send_all [OpStop ''1'', OpDestroy ''1''] example_node)) []))
       = [OpStop ''1'', OpDestroy ''1'']
   \<and> wire (fst (open_handler (snd (send_all [OpStop ''1'', OpDestroy ''1''] example_node)) [])) = []"
proof -
  have h: "\<not> connected example_node"
    by (simp add: example_node_def connect_node_def new_node_def Let_def)
  have q: "packetQueue example_node = []" and w: "wire example_node = []"
    and r: "resume_packets example_node = []"
    by (simp_all add: example_node_def connect_node_def new_node_def Let_def resume_packets_def
          example_options_def)
  show ?thesis
    using h backlog_appended_not_flushed [OF h, of "[OpStop ''1'', OpDestroy ''1'']" "[]" "OpStop ''1''"]
    by (simp add: q w r upt_rec)
qed

text \<open>
  Claim C3 as stated fails: two payloads sent while disconnected are still on the backlog
  after the \<open>open\<close> handler has run, and none of them has been transmitted.
\<close>

theorem backlog_flush_counterexample:
  "connected (fst (open_handler (snd (send_all [OpStop ''1'', OpDestroy ''1''] example_node)) []))
   \<and> wire (fst (open_handler (snd (send_all [OpStop ''1'', OpDestroy ''1''] example_node)) []))
       \<noteq> [OpStop ''1'', OpDestroy ''1'']
   \<and> wire (fst (open_handler (snd (send_all [OpStop ''1'', OpDestroy ''1''] example_node)) [])) = []"
  by (simp add: example_node_def connect_node_def new_node_def Let_def example_options_def
        send_def open_handler_def)

section \<open>Reconnect timers\<close>

lemma close_handler_node:
  "code \<noteq> 1000 \<Longrightarrow> fst (close_handler code n evs) = reconnect n"
  by (simp add: close_handler_def Let_def)

lemma error_handler_node: "fst (error_handler code n evs) = reconnect n"
  by (simp add: error_handler_def)

lemma reconnect_twice:
  "timers (reconnect (reconnect n)) = timers n @ [fresh n, Suc (fresh n)]
   \<and> reconn (reconnect (reconnect n)) = Some (Suc (fresh n))"
  by (simp add: reconnect_def)

text \<open>
  Claim C8, as the code has it. \<open>reconnect\<close> sets a new timer on every call and clears none:
  after a close with a code other than 1000 and an error, in either order, two more
  reconnects are pending than before, and \<open>reconn\<close> names the later one.
\<close>

theorem close_and_error_schedule_two:
  assumes "code \<noteq> 1000"
  shows "timers (fst (error_handler c (fst (close_handler code n evs)) evs')) = timers n @ [fresh n, Suc (fresh n)]
     \<and> reconn (fst (error_handler c (fst (close_handler code n evs)) evs')) = Some (Suc (fresh n))
     \<and> timers (fst (close_handler code (fst (error_handler c n evs)) evs')) = timers n @ [fresh n, Suc (fresh n)]
     \<and> reconn (fst (close_handler code (fst (error_handler c n evs)) evs')) = Some (Suc (fresh n))"
  using assms by (simp add: close_handler_node error_handler_node reconnect_twice)

theorem close_and_error_schedule_two_witness:
  "(1006::int) \<noteq> 1000
   \<and> timers (fst (error_handler 1 (fst (close_handler 1006 example_node [])) [])) = [1, 2]
   \<and> reconn (fst (error_handler 1 (fst (close_handler 1006 example_node [])) [])) = Some 2"
proof -
  have h: "(1006::int) \<noteq> 1000" by simp
  have t: "timers example_node = []" and f: "fresh example_node = 1"
    by (simp_all add: example_node_def connect_node_def new_node_def Let_def)
  show ?thesis
    using close_and_error_schedule_two [OF h, of 1 example_node "[]" "[]"] by (simp add: t f)
qed

text \<open>
  Claim C8 as stated fails: after a close with code 1006 and an error on the same node, two
  reconnects are pending.
\<close>

theorem single_reconnect_counterexample:
  "length (timers (fst (error_handler 1 (fst (close_handler 1006 example_node [])) []))) = 2"
  by (simp add: example_node_def connect_node_def new_node_def Let_def
        close_handler_def error_handler_def reconnect_def)

section \<open>Stopping and skipping\<close>

lemma node_send_fields [simp]:
  "queue (node_send pk p) = queue p" "playing (node_send pk p) = playing p"
  "paused (node_send pk p) = paused p" "bands (node_send pk p) = bands p"
  "guild (node_send pk p) = guild p" "track (node_send pk p) = track p"
  "voiceChannel (node_send pk p) = voiceChannel p"
  "node (node_send pk p) = do_send pk (node p)"
  by (simp_all add: node_send_def)

text \<open>
  Claim C5, as the code has it. For a skip count above 1, \<open>stop\<close> throws when the count
  exceeds the queue length and else removes the first \<open>skipCount - 1\<close> entries before it
  sends \<open>stop\<close>; for a count that is missing or at most 1 the queue stays and \<open>stop\<close> is sent.
\<close>

theorem stop_removes_one_less:
  "(1 < a \<and> int (length (queue p)) < a \<longrightarrow>
      stop (Some a) p = Inl (RangeError ''Cannot skip more than the queue size''))
   \<and> (1 < a \<and> a \<le> int (length (queue p)) \<longrightarrow>
        (\<exists>p'. stop (Some a) p = Inr p'
              \<and> queue p' = drop (nat a - 1) (queue p)
              \<and> length (queue p') = length (queue p) - (nat a - 1)
              \<and> node p' = do_send (OpStop (guild p)) (node p)))
   \<and> (a \<le> 1 \<longrightarrow>
        (\<exists>p'. stop (Some a) p = Inr p' \<and> queue p' = queue p
              \<and> node p' = do_send (OpStop (guild p)) (node p)))
   \<and> (\<exists>p'. stop None p = Inr p' \<and> queue p' = queue p
              \<and> node p' = do_send (OpStop (guild p)) (node p))"
proof -
  have n: "nat (a - 1) = nat a - 1" by simp
  show ?thesis by (auto simp: stop_def n)
qed

theorem stop_removes_one_less_witness:
  "(1::int) < 2 \<and> (2::int) \<le> int (length (queue example_playing))
   \<and> (\<exists>p'. stop (Some 2) example_playing = Inr p'
           \<and> queue p' = [example_track ''b'', example_track ''c''])
   \<and> (4::int) > int (length (queue example_playing))
   \<and> stop (Some 4) example_playing = Inl (RangeError ''Cannot skip more than the queue size'')
   \<and> (\<exists>p'. stop (Some 1) example_playing = Inr p' \<and> queue p' = queue example_playing)"
proof -
  have q: "queue example_playing = [example_track ''a'', example_track ''b'', example_track ''c'']"
    by (simp add: example_playing_def)
  show ?thesis
    using stop_removes_one_less [of 2 example_playing]
          stop_removes_one_less [of 4 example_playing]
          stop_removes_one_less [of 1 example_playing]
    by (auto simp: q)
qed

text \<open>
  Claim C5 as stated fails: \<open>stop(2)\<close> on a queue of three tracks removes one entry, not two.
\<close>

theorem stop_two_counterexample:
  "stop (Some 2) example_playing
     = Inr (node_send (OpStop ''1'')
             (example_playing\<lparr>queue := [example_track ''b'', example_track ''c'']\<rparr>))
   \<and> [example_track ''b'', example_track ''c''] \<noteq> drop 2 (queue example_playing)"
  by (simp add: stop_def example_playing_def example_player_def new_player_def
        example_struct_def)

section \<open>Destroying a session\<close>

lemma disconnect_guild: "guild (fst (snd (disconnect p m))) = guild p"
  by (simp add: disconnect_def Let_def pause_def)

lemma disconnect_players: "players (snd (snd (disconnect p m))) = players m"
  by (simp add: disconnect_def Let_def transfer_def)

lemma destroy_guild: "guild (fst (destroy p m)) = guild p"
  using disconnect_guild [of p m]
  by (cases "disconnect p m") (simp add: destroy_def Let_def)

lemma destroy_players: "players (snd (destroy p m)) = (players m)(guild p := None)"
  using disconnect_guild [of p m] disconnect_players [of p m]
  by (cases "disconnect p m") (simp add: destroy_def Let_def emit_def)

text \<open>
  Claim C9. After the first \<open>destroy\<close> the registry has no session for the guild. The
  second call returns a state and no error, and it leaves the registry's session map as
  the first call left it.
\<close>

theorem destroy_twice:
  "players (snd (destroy p m)) (guild p) = None
   \<and> call DoDestroy (destroy p m) = Inr (destroy (fst (destroy p m)) (snd (destroy p m)))
   \<and> players (snd (destroy (fst (destroy p m)) (snd (destroy p m)))) = players (snd (destroy p m))"
  by (simp add: destroy_players destroy_guild)

theorem destroy_twice_witness:
  "players example_manager ''1'' = Some example_player
   \<and> players (snd (destroy example_player example_manager)) ''1'' = None
   \<and> players (snd (destroy (fst (destroy example_player example_manager))
                     (snd (destroy example_player example_manager))))
       = players (snd (destroy example_player example_manager))"
proof -
  have g: "guild example_player = ''1''"
    by (simp add: example_player_def new_player_def example_struct_def)
  have s: "players example_manager ''1'' = Some example_player"
    by (simp add: example_manager_def)
  show ?thesis using destroy_twice [of example_player example_manager] by (simp add: g s)
qed

section \<open>Filter setters\<close>

lemma send_filter_cases:
  "send_filter f p =
     (if playing p then Inr (node_send (OpFilters (guild p) f) p)
      else Inl (Error ''Nothing is playing''))"
  by (simp add: send_filter_def)

lemmas filter_setter_defs =
  setKaraoke_def setTimeScale_def setTremolo_def setVibrato_def setRotation_def
  setDistortion_def setChannelMix_def setLowPass_def cleanFilters_def

lemma setters_not_playing:
  assumes "\<not> playing p"
  shows "setEQ bs p = Inl (Error ''Nothing is playing'')"
    "clearEQ p = Inl (Error ''Nothing is playing'')"
    "setKaraoke a b c d p = Inl (Error ''Nothing is playing'')"
    "setTimeScale a b c p = Inl (Error ''Nothing is playing'')"
    "setTremolo a b p = Inl (Error ''Nothing is playing'')"
    "setVibrato a b p = Inl (Error ''Nothing is playing'')"
    "setRotation a p = Inl (Error ''Nothing is playing'')"
    "setDistortion a b c d e f g h p = Inl (Error ''Nothing is playing'')"
    "setChannelMix a b c d p = Inl (Error ''Nothing is playing'')"
    "setLowPass a p = Inl (Error ''Nothing is playing'')"
    "cleanFilters p = Inl (Error ''Nothing is playing'')"
  using assms by (simp_all add: filter_setter_defs send_filter_cases setEQ_def clearEQ_def)

lemma setEQ_playing:
  assumes "playing p"
  shows "setEQ bs p \<noteq> Inl (Error ''Nothing is playing'')"
    "bs = [] \<or> \<not> list_all valid_band bs \<Longrightarrow>
       setEQ bs p = Inl (TypeError ''Bands must be in an object, with band and gain property.'')"
    "bs \<noteq> [] \<Longrightarrow> list_all valid_band bs \<Longrightarrow> bands p = None \<Longrightarrow>
       setEQ bs p = Inl (TypeError ''Cannot set properties of undefined'')"
    "bs \<noteq> [] \<Longrightarrow> list_all valid_band bs \<Longrightarrow> bands p = Some xs \<Longrightarrow>
       setEQ bs p = Inr (node_send (OpEqualizer (guild p) (Some (band_objects (assign_bands bs xs))))
                          (p\<lparr>bands := Some (assign_bands bs xs)\<rparr>))"
  using assms by (auto simp: setEQ_def Let_def split: option.splits)

text \<open>
  Claim C7, as the code has it. Every filter setter throws the not-playing error exactly
  when the playing flag is false; a call that throws returns no new state, so nothing was
  sent. On a playing session every setter but \<open>setEQ\<close> sends its command with its own
  sub-object (\<open>clearEQ\<close> the sixteen zero bands as an \<open>equalizer\<close> command, \<open>cleanFilters\<close> a
  \<open>filters\<close> command without sub-object). \<open>setEQ\<close> on a playing session validates first:
  without a descriptor, or with a malformed one, it throws a type error; with valid
  descriptors and a band array it stores the gains and sends the \<open>equalizer\<close> command.
\<close>

theorem filter_setters_playing_guard:
  "(\<not> playing p \<longrightarrow>
      setEQ bs p = Inl (Error ''Nothing is playing'')
      \<and> clearEQ p = Inl (Error ''Nothing is playing'')
      \<and> setKaraoke k1 k2 k3 k4 p = Inl (Error ''Nothing is playing'')
      \<and> setTimeScale t1 t2 t3 p = Inl (Error ''Nothing is playing'')
      \<and> setTremolo r1 r2 p = Inl (Error ''Nothing is playing'')
      \<and> setVibrato v1 v2 p = Inl (Error ''Nothing is playing'')
      \<and> setRotation ro p = Inl (Error ''Nothing is playing'')
      \<and> setDistortion d1 d2 d3 d4 d5 d6 d7 d8 p = Inl (Error ''Nothing is playing'')
      \<and> setChannelMix c1 c2 c3 c4 p = Inl (Error ''Nothing is playing'')
      \<and> setLowPass lp p = Inl (Error ''Nothing is playing'')
      \<and> cleanFilters p = Inl (Error ''Nothing is playing''))
   \<and> (playing p \<longrightarrow>
      setEQ bs p \<noteq> Inl (Error ''Nothing is playing'')
      \<and> clearEQ p = Inr (node_send (OpEqualizer (guild p)
                                        (Some (band_objects (replicate 16 (Some (Num 0))))))
                            (p\<lparr>bands := Some (replicate 16 (Some (Num 0)))\<rparr>))
      \<and> setKaraoke k1 k2 k3 k4 p
          = Inr (node_send (OpFilters (guild p)
                   (Some (Karaoke (or_default k1 (Num 1)) (or_default k2 (Num 1))
                            (or_default k3 (Num 220)) (or_default k4 (Num 100))))) p)
      \<and> setTimeScale t1 t2 t3 p
          = Inr (node_send (OpFilters (guild p)
                   (Some (Timescale (or_default t1 (Num 1)) (or_default t2 (Num 1))
                            (or_default t3 (Num 1))))) p)
      \<and> setTremolo r1 r2 p
          = Inr (node_send (OpFilters (guild p)
                   (Some (Tremolo (or_default r1 (Num 2)) (or_default r2 (Num (1 / 2)))))) p)
      \<and> setVibrato v1 v2 p
          = Inr (node_send (OpFilters (guild p)
                   (Some (Vibrato (or_default v1 (Num 2)) (or_default v2 (Num (1 / 2)))))) p)
      \<and> setRotation ro p
          = Inr (node_send (OpFilters (guild p) (Some (Rotation (or_default ro (Num 0))))) p)
      \<and> setDistortion d1 d2 d3 d4 d5 d6 d7 d8 p
          = Inr (node_send (OpFilters (guild p)
                   (Some (Distortion (or_default d1 (Num 0)) (or_default d2 (Num 1))
                            (or_default d3 (Num 0)) (or_default d4 (Num 1))
                            (or_default d5 (Num 0)) (or_default d6 (Num 1))
                            (or_default d7 (Num 0)) (or_default d8 (Num 1))))) p)
      \<and> setChannelMix c1 c2 c3 c4 p
          = Inr (node_send (OpFilters (guild p)
                   (Some (ChannelMix (or_default c1 (Num 1)) (or_default c2 (Num 0))
                            (or_default c4 (Num 0)) (or_default c3 (Num 1))))) p)
      \<and> setLowPass lp p
          = Inr (node_send (OpFilters (guild p) (Some (LowPass (or_default lp (Num 20))))) p)
      \<and> cleanFilters p = Inr (node_send (OpFilters (guild p) None) p))
   \<and> (playing p \<and> (bs = [] \<or> \<not> list_all valid_band bs) \<longrightarrow>
      setEQ bs p = Inl (TypeError ''Bands must be in an object, with band and gain property.''))
   \<and> (playing p \<and> bs \<noteq> [] \<and> list_all valid_band bs \<and> bands p = Some xs \<longrightarrow>
      setEQ bs p = Inr (node_send (OpEqualizer (guild p) (Some (band_objects (assign_bands bs xs))))
                         (p\<lparr>bands := Some (assign_bands bs xs)\<rparr>)))"
proof -
  have a: "\<not> playing p \<longrightarrow>
      setEQ bs p = Inl (Error ''Nothing is playing'')
      \<and> clearEQ p = Inl (Error ''Nothing is playing'')
      \<and> setKaraoke k1 k2 k3 k4 p = Inl (Error ''Nothing is playing'')
      \<and> setTimeScale t1 t2 t3 p = Inl (Error ''Nothing is playing'')
      \<and> setTremolo r1 r2 p = Inl (Error ''Nothing is playing'')
      \<and> setVibrato v1 v2 p = Inl (Error ''Nothing is playing'')
      \<and> setRotation ro p = Inl (Error ''Nothing is playing'')
      \<and> setDistortion d1 d2 d3 d4 d5 d6 d7 d8 p = Inl (Error ''Nothing is playing'')
      \<and> setChannelMix c1 c2 c3 c4 p = Inl (Error ''Nothing is playing'')
      \<and> setLowPass lp p = Inl (Error ''Nothing is playing'')
      \<and> cleanFilters p = Inl (Error ''Nothing is playing'')"
    by (simp add: setters_not_playing)
  have b: "playing p \<longrightarrow> setEQ bs p \<noteq> Inl (Error ''Nothing is playing'')"
    by (simp add: setEQ_playing)
  have c: "playing p \<longrightarrow> clearEQ p = Inr (node_send (OpEqualizer (guild p)
                                        (Some (band_objects (replicate 16 (Some (Num 0))))))
                            (p\<lparr>bands := Some (replicate 16 (Some (Num 0)))\<rparr>))"
    by (simp add: clearEQ_def Let_def)
  have d: "playing p \<and> (bs = [] \<or> \<not> list_all valid_band bs) \<longrightarrow>
      setEQ bs p = Inl (TypeError ''Bands must be in an object, with band and gain property.'')"
    using setEQ_playing(2) [of p bs] by blast
  have e: "playing p \<and> bs \<noteq> [] \<and> list_all valid_band bs \<and> bands p = Some xs \<longrightarrow>
      setEQ bs p = Inr (node_send (OpEqualizer (guild p) (Some (band_objects (assign_bands bs xs))))
                         (p\<lparr>bands := Some (assign_bands bs xs)\<rparr>))"
    using setEQ_playing(4) [of p bs xs] by blast
  show ?thesis
    apply (intro conjI)
       apply (rule a)
      apply (intro impI conjI)
                apply (simp add: b)
               apply (simp add: c)
              apply (simp_all add: filter_setter_defs send_filter_cases)[9]
     apply (rule d)
    apply (rule e)
    done
qed

theorem filter_setters_playing_guard_witness:
  "playing example_playing
   \<and> setTremolo None None example_playing
       = Inr (node_send (OpFilters ''1'' (Some (Tremolo (Num 2) (Num (1 / 2))))) example_playing)
   \<and> cleanFilters example_playing = Inr (node_send (OpFilters ''1'' None) example_playing)
   \<and> \<not> playing example_player
   \<and> setTremolo None None example_player = Inl (Error ''Nothing is playing'')
   \<and> cleanFilters example_player = Inl (Error ''Nothing is playing'')
   \<and> setEQ [] example_playing
       = Inl (TypeError ''Bands must be in an object, with band and gain property.'')
   \<and> list_all valid_band [example_band]
   \<and> bands (example_playing\<lparr>bands := Some [None]\<rparr>) = Some [None]
   \<and> setEQ [example_band] (example_playing\<lparr>bands := Some [None]\<rparr>)
       = Inr (node_send (OpEqualizer ''1'' (Some [None, None, None, Some (3, Num (1 / 4))]))
               (example_playing\<lparr>bands := Some [None, None, None, Some (Num (1 / 4))]\<rparr>))"
proof -
  have p: "playing example_playing" and g: "guild example_playing = ''1''"
    by (simp_all add: example_playing_def example_player_def new_player_def example_struct_def)
  have n: "\<not> playing example_player"
    by (simp add: example_player_def new_player_def)
  have v: "valid_band example_band"
    by (simp add: valid_band_def example_band_def)
  have a: "assign_bands [example_band] [None] = [None, None, None, Some (Num (1 / 4))]"
    by (simp add: example_band_def assign_band_def numeral_eq_Suc)
  have o: "band_objects [None, None, None, Some (Num (1 / 4))]
             = [None, None, None, Some (3, Num (1 / 4))]"
    by (simp add: band_objects_def enumerate_eq_zip upt_rec)
  show ?thesis
    using filter_setters_playing_guard
            [of example_playing "[]" None None None None None None None None None None None None
                None None None None None None None None None None None None None "[]"]
          filter_setters_playing_guard
            [of example_player "[]" None None None None None None None None None None None None
                None None None None None None None None None None None None None "[]"]
          filter_setters_playing_guard
            [of "example_playing\<lparr>bands := Some [None]\<rparr>" "[example_band]" None None None
                None None None None None None None None None None None None None None None None
                None None None None None None "[None]"]
    by (simp add: p g n v a o del: assign_bands.simps)
qed

text \<open>
  Claim C7 as stated fails for the equalizer setter: \<open>setEQ\<close> without a band descriptor on a
  playing session throws a type error, and no command is sent.
\<close>

theorem setEQ_playing_counterexample:
  "playing example_playing
   \<and> setEQ [] example_playing
       = Inl (TypeError ''Bands must be in an object, with band and gain property.'')"
  by (simp add: setEQ_def example_playing_def)

section \<open>The band array\<close>

lemma play_bands: "bands (snd (play now options p)) = bands p"
  by (simp add: play_def split: list.splits)

lemma stop_bands: "stop amount p = Inr p' \<Longrightarrow> bands p' = bands p"
  by (auto simp: stop_def split: option.splits if_splits)

lemma pause_bands: "bands (pause st p) = bands p"
  by (simp add: pause_def)

lemma seek_bands: "seek pos p = Inr p' \<Longrightarrow> bands p' = bands p"
  by (auto simp: seek_def split: if_splits)

lemma setVolume_bands: "setVolume level p = Inr p' \<Longrightarrow> bands p' = bands p"
  by (auto simp: setVolume_def split: if_splits)

lemma send_filter_bands: "send_filter f p = Inr p' \<Longrightarrow> bands p' = bands p"
  by (auto simp: send_filter_def split: if_splits)

lemma setEQ_bands_None: "bands p = None \<Longrightarrow> \<exists>e. setEQ bs p = Inl e"
  by (simp add: setEQ_def)

lemma disconnect_bands: "bands (fst (snd (disconnect p m))) = bands p"
  by (simp add: disconnect_def Let_def pause_bands)

lemma destroy_bands: "bands (fst (destroy p m)) = bands p"
  using disconnect_bands [of p m]
  by (cases "disconnect p m") (simp add: destroy_def Let_def)

lemma stop_and_clear_bands: "stop_and_clear p = Inr p' \<Longrightarrow> bands p' = bands p"
  by (auto simp: stop_and_clear_def stop_def)

lemma track_end_bands: "track_end now reason p m = Inr (p', m') \<Longrightarrow> bands p' = bands p"
  by (auto simp: track_end_def Let_def play_bands shift_def
           split: if_splits sum.splits dest: stop_and_clear_bands)

lemma lavalinkEvent_bands: "lavalinkEvent now data p m = Inr (p', m') \<Longrightarrow> bands p' = bands p"
  by (auto simp: lavalinkEvent_def Let_def shift_def split: if_splits dest: track_end_bands)

lemma call_bands:
  assumes "call c s = Inr s'" and "c \<noteq> DoClearEQ" and "bands (fst s) = None"
  shows "bands (fst s') = None"
proof (cases c)
  case (DoSetEQ bs)
  then show ?thesis
    using assms setEQ_bands_None [of "fst s" bs] by (auto simp: on_player_def)
next
  case DoClearEQ
  then show ?thesis using assms by simp
next
  case (DoLavalinkEvent now data)
  then show ?thesis
    using assms lavalinkEvent_bands [of now data "fst s" "snd s" "fst s'" "snd s'"] by simp
next
  case (DoStop amount)
  then show ?thesis
    using assms by (auto simp: on_player_def split: sum.splits dest: stop_bands)
next
  case (DoSeek pos)
  then show ?thesis
    using assms by (auto simp: on_player_def split: sum.splits dest: seek_bands)
next
  case (DoSetVolume level)
  then show ?thesis
    using assms by (auto simp: on_player_def split: sum.splits dest: setVolume_bands)
qed (use assms in \<open>auto simp: play_bands pause_bands setTrackRepeat_def setQueueRepeat_def
       removeRepeat_def setTextChannel_def setVoiceChannel_def connect_def disconnect_bands
       destroy_bands playerUpdate_def filter_setter_defs on_player_def
       split: sum.splits dest: send_filter_bands\<close>)

lemma calls_bands:
  "DoClearEQ \<notin> set cs \<Longrightarrow> bands (fst s) = None \<Longrightarrow> bands (fst (calls cs s)) = None"
proof (induction cs arbitrary: s)
  case Nil
  then show ?case by simp
next
  case (Cons c cs)
  have "bands (fst (case call c s of Inl e \<Rightarrow> s | Inr s' \<Rightarrow> s')) = None"
  proof (cases "call c s")
    case (Inl e)
    then show ?thesis using Cons.prems by simp
  next
    case (Inr s')
    then show ?thesis using Cons.prems call_bands [of c s s'] by auto
  qed
  then show ?case using Cons by simp
qed

text \<open>
  Claim C10. The constructor leaves the band array undefined, and no call other than
  \<open>clearEQ\<close> defines it. So after any calls on a new session with no \<open>clearEQ\<close> among them,
  \<open>setEQ\<close> throws; when the session is playing and every descriptor is valid, the throw is
  the write into the undefined array. After a \<open>clearEQ\<close> that succeeded the array has its
  sixteen zero bands and \<open>setEQ\<close> with valid descriptors succeeds.
\<close>

theorem setEQ_throws_before_clearEQ:
  "bands (new_player nd options) = None
   \<and> (DoClearEQ \<notin> set cs \<longrightarrow>
        (\<exists>e. setEQ bs (fst (calls cs (new_player nd options, m))) = Inl e))
   \<and> (DoClearEQ \<notin> set cs \<and> playing (fst (calls cs (new_player nd options, m)))
        \<and> bs \<noteq> [] \<and> list_all valid_band bs \<longrightarrow>
        setEQ bs (fst (calls cs (new_player nd options, m)))
          = Inl (TypeError ''Cannot set properties of undefined''))
   \<and> (clearEQ p = Inr p1 \<and> bs \<noteq> [] \<and> list_all valid_band bs \<longrightarrow>
        bands p1 = Some (replicate 16 (Some (Num 0))) \<and> (\<exists>p2. setEQ bs p1 = Inr p2))"
proof -
  let ?p = "fst (calls cs (new_player nd options, m))"
  have a: "bands (new_player nd options) = None" by (simp add: new_player_def)
  have b: "DoClearEQ \<notin> set cs \<Longrightarrow> bands ?p = None"
    using calls_bands [of cs "(new_player nd options, m)"] a by simp
  have c: "DoClearEQ \<notin> set cs \<longrightarrow> (\<exists>e. setEQ bs ?p = Inl e)"
    using b setEQ_bands_None by blast
  have d: "DoClearEQ \<notin> set cs \<and> playing ?p \<and> bs \<noteq> [] \<and> list_all valid_band bs \<longrightarrow>
        setEQ bs ?p = Inl (TypeError ''Cannot set properties of undefined'')"
    using b setEQ_playing(3) [of ?p bs] by blast
  have e: "clearEQ p = Inr p1 \<and> bs \<noteq> [] \<and> list_all valid_band bs \<longrightarrow>
        bands p1 = Some (replicate 16 (Some (Num 0))) \<and> (\<exists>p2. setEQ bs p1 = Inr p2)"
    by (auto simp: clearEQ_def setEQ_def Let_def node_send_def split: if_splits)
  show ?thesis using a c d e by blast
qed

theorem setEQ_throws_before_clearEQ_witness:
  "DoClearEQ \<notin> set [DoQueuePush (example_track ''a''), DoPlay 5 no_options]
   \<and> playing (fst (calls [DoQueuePush (example_track ''a''), DoPlay 5 no_options]
                   (new_player example_node example_struct, example_manager)))
   \<and> [example_band] \<noteq> [] \<and> list_all valid_band [example_band]
   \<and> setEQ [example_band]
        (fst (calls [DoQueuePush (example_track ''a''), DoPlay 5 no_options]
                (new_player example_node example_struct, example_manager)))
       = Inl (TypeError ''Cannot set properties of undefined'')
   \<and> clearEQ example_playing
       = Inr (node_send (OpEqualizer ''1'' (Some (band_objects (replicate 16 (Some (Num 0))))))
               (example_playing\<lparr>bands := Some (replicate 16 (Some (Num 0)))\<rparr>))
   \<and> (\<exists>p2. setEQ [example_band]
               (node_send (OpEqualizer ''1'' (Some (band_objects (replicate 16 (Some (Num 0))))))
                  (example_playing\<lparr>bands := Some (replicate 16 (Some (Num 0)))\<rparr>)) = Inr p2)"
proof -
  let ?cs = "[DoQueuePush (example_track ''a''), DoPlay 5 no_options]"
  let ?p = "fst (calls ?cs (new_player example_node example_struct, example_manager))"
  let ?p1 = "node_send (OpEqualizer ''1'' (Some (band_objects (replicate 16 (Some (Num 0))))))
               (example_playing\<lparr>bands := Some (replicate 16 (Some (Num 0)))\<rparr>)"
  have h1: "DoClearEQ \<notin> set ?cs" by simp
  have h2: "playing ?p" by (simp add: play_def new_player_def)
  have h3: "[example_band] \<noteq> []" by simp
  have h4: "list_all valid_band [example_band]"
    by (simp add: valid_band_def example_band_def)
  have h5: "clearEQ example_playing = Inr ?p1"
    by (simp add: clearEQ_def Let_def example_playing_def example_player_def new_player_def
          example_struct_def)
  note t = setEQ_throws_before_clearEQ
             [of example_node example_struct ?cs "[example_band]" example_manager
                 example_playing ?p1]
  have r1: "setEQ [example_band] ?p = Inl (TypeError ''Cannot set properties of undefined'')"
    using t h1 h2 h3 h4 by blast
  have r2: "\<exists>p2. setEQ [example_band] ?p1 = Inr p2"
    using t h5 h3 h4 by blast
  show ?thesis using h1 h2 h3 h4 h5 r1 r2 by blast
qed

section \<open>The end-of-track decision table\<close>

lemma play_is_play_head: "snd (play now no_options p) = play_head now p"
  by (simp add: play_def play_head_def no_options_def node_send_def split: list.splits)

lemma play_head_shift: "play_head now (shift p) = drop_head_play_next now p"
  by (simp add: drop_head_play_next_def shift_def)

lemma stop_and_clear_is_clear_and_stop: "stop_and_clear p = Inr (clear_and_stop p)"
  by (simp add: stop_and_clear_def stop_def clear_and_stop_def node_send_def)

lemma drop_head_play_next_fields:
  "guild (drop_head_play_next now p) = guild p"
  "2 \<le> length (queue p) \<Longrightarrow> track (drop_head_play_next now p) = Some (queue p ! 1)"
  "2 \<le> length (queue p) \<Longrightarrow> queue (drop_head_play_next now p) = tl (queue p)"
  "2 \<le> length (queue p) \<Longrightarrow>
     node (drop_head_play_next now p)
       = do_send (OpPlay (guild p) (track_code (queue p ! 1)) (Num 0) (Num 100) False False)
           (node p)"
proof -
  show "guild (drop_head_play_next now p) = guild p"
    by (simp add: drop_head_play_next_def play_head_def split: list.splits)
next
  assume "2 \<le> length (queue p)"
  then obtain a b rest where q: "queue p = a # b # rest"
    by (cases "queue p"; cases "tl (queue p)") auto
  show "track (drop_head_play_next now p) = Some (queue p ! 1)"
    and "queue (drop_head_play_next now p) = tl (queue p)"
    and "node (drop_head_play_next now p)
       = do_send (OpPlay (guild p) (track_code (queue p ! 1)) (Num 0) (Num 100) False False)
           (node p)"
    by (simp_all add: drop_head_play_next_def play_head_def q)
qed

text \<open>
  Why \<open>stop\<close> removes one entry less than the amount: the node answers \<open>stop\<close> with a
  \<open>TrackEndEvent\<close> of reason \<open>STOPPED\<close>, whose handler drops one more entry. Together they
  skip \<open>amount\<close> tracks.
\<close>

lemma stop_then_stopped_event:
  assumes "1 < a" and "a \<le> int (length (queue p))" and "\<not> trackRepeat p"
    and "stop (Some a) p = Inr p1"
    and "lavalinkEvent now (track_end_event ''STOPPED'') p1 m = Inr (p2, m2)"
  shows "queue p2 = drop (nat a) (queue p)"
proof -
  have n: "nat (a - 1) = nat a - 1" by simp
  have p1: "p1 = node_send (OpStop (guild p)) (p\<lparr>queue := drop (nat a - 1) (queue p)\<rparr>)"
    using assms(1,2,4) by (simp add: stop_def n)
  have q1: "queue p1 = drop (nat a - 1) (queue p)" and r1: "\<not> trackRepeat p1"
    using assms(3) by (simp_all add: p1 node_send_def)
  obtain k where k: "nat a = Suc k"
    using assms(1) by (cases "nat a") auto
  have t: "tl (drop (nat a - Suc 0) (queue p)) = drop (nat a) (queue p)"
    by (simp add: k drop_Suc tl_drop)
  have e: "lavalinkEvent now (track_end_event ''STOPPED'') p1 m
             = track_end now ''STOPPED'' p1 m"
    by (simp add: lavalinkEvent_def track_end_event_def)
  show ?thesis
  proof (cases "2 \<le> length (queue p1)")
    case True
    then have "p2 = drop_head_play_next now p1"
      using assms(5) r1
      by (simp add: e track_end_def play_is_play_head play_head_shift)
    then show ?thesis using True by (simp add: drop_head_play_next_fields q1 t)
  next
    case False
    then have "p2 = clear_and_stop p1"
      using assms(5) r1
      by (auto simp: e track_end_def stop_and_clear_is_clear_and_stop)
    moreover have "drop (nat a) (queue p) = []"
      using False assms(1,2) by (simp add: q1)
    ultimately show ?thesis by (simp add: clear_and_stop_def)
  qed
qed

text \<open>
  The head that \<open>play\<close> starts is the current track when the two agree, and another
  track when they do not: with track repeat on, \<open>stop(2)\<close> on three queued tracks and the
  \<open>STOPPED\<close> event that answers it start the second track, not the one that was playing.
\<close>

lemma play_head_current:
  "queue p = t # ts \<Longrightarrow> track p = Some t \<Longrightarrow> track (play_head now p) = track p"
  by (simp add: play_head_def)

lemma track_repeat_after_skip:
  "stop (Some 2) (example_playing\<lparr>trackRepeat := True\<rparr>)
     = Inr (node_send (OpStop ''1'')
             (example_playing\<lparr>trackRepeat := True,
                               queue := [example_track ''b'', example_track ''c'']\<rparr>))
   \<and> track (node_send (OpStop ''1'')
              (example_playing\<lparr>trackRepeat := True,
                                queue := [example_track ''b'', example_track ''c'']\<rparr>))
       = Some (example_track ''a'')
   \<and> map_sum id (track \<circ> fst)
        (lavalinkEvent 7 (track_end_event ''STOPPED'')
           (node_send (OpStop ''1'')
              (example_playing\<lparr>trackRepeat := True,
                                queue := [example_track ''b'', example_track ''c'']\<rparr>))
           example_manager)
       = Inr (Some (example_track ''b''))"
  by (simp add: stop_def example_playing_def example_player_def new_player_def
        example_struct_def lavalinkEvent_def track_end_event_def track_end_def
        play_is_play_head play_head_def node_send_def)




section \<open>Voice correlation\<close>

lemma connect_sends:
  "node (connect (sid, server) pl) = do_send (OpVoiceUpdate (guild pl) sid server) (node pl)"
  "voiceUpdateState (connect (sid, server) pl) = Some (sid, server)"
  by (simp_all add: connect_def node_send_def)

text \<open>A session that never had a voice link and gets the server half alone: the read throws.\<close>

lemma connectionProcess_first_link_throws:
  "voiceServers m g = Some server \<Longrightarrow> players m g = Some pl \<Longrightarrow> voiceStates m g = None \<Longrightarrow>
     voiceUpdateState pl = None \<Longrightarrow>
     connectionProcess g m = Inl (TypeError ''Cannot read properties of undefined'')"
  by (simp add: connectionProcess_def)

text \<open>
  Both entry points store their half before the correlation attempt, also when the attempt
  throws.
\<close>

lemma voiceServersUpdate_stores:
  "voiceServers (snd (voiceServersUpdate data m)) (vs_guild_id data) = Some data"
  by (auto simp: voiceServersUpdate_def connectionProcess_def Let_def split: option.splits)

text \<open>
  A new session in both arrival orders. State half first: the state update returns \<open>false\<close>
  and the server update links. Server half first: the server update throws and keeps the
  server half, and the state update links.
\<close>

lemma first_link_state_then_server:
  "fst (voiceStateUpdate example_joined example_started) = Inr (Some False)
   \<and> voiceServersUpdate (example_server ''t1'') (snd (voiceStateUpdate example_joined example_started))
       = (Inr True,
          example_started\<lparr>voiceStates := [''1'' \<mapsto> example_joined],
                           voiceServers := [''1'' \<mapsto> example_server ''t1''],
                           players := [''1'' \<mapsto> connect (''s1'', example_server ''t1'')
                                                    example_player]\<rparr>)"
  by (simp add: voiceStateUpdate_def voiceServersUpdate_def connectionProcess_def Let_def
        example_started_def example_manager_def new_manager_def example_joined_def
        example_server_def)

lemma first_link_server_then_state:
  "voiceServersUpdate (example_server ''t1'') example_started
     = (Inl (TypeError ''Cannot read properties of undefined''),
        example_started\<lparr>voiceServers := [''1'' \<mapsto> example_server ''t1'']\<rparr>)
   \<and> voiceStateUpdate example_joined
        (snd (voiceServersUpdate (example_server ''t1'') example_started))
       = (Inr (Some True),
          example_started\<lparr>voiceServers := [''1'' \<mapsto> example_server ''t1''],
                           voiceStates := [''1'' \<mapsto> example_joined],
                           players := [''1'' \<mapsto> connect (''s1'', example_server ''t1'')
                                                    example_player]\<rparr>)"
  by (simp add: voiceStateUpdate_def voiceServersUpdate_def connectionProcess_def Let_def
        example_started_def example_manager_def new_manager_def example_joined_def
        example_server_def example_player_def new_player_def)

text \<open>
  Claim C2, as the code has it. The session's \<open>connect\<close> is invoked only when the
  voice-server half is stored for the guild, a session exists for it, and the voice-state
  half is stored or the session holds an earlier voice link, whose session id is then used
  again. So for a session without an earlier link it fires only with both halves stored,
  and with the voice-state half alone it never fires. A correlation attempt that returns
  tells whether \<open>connect\<close> was invoked: \<open>false\<close> leaves the manager as it was, \<open>true\<close> comes
  with the \<open>voiceUpdate\<close> command sent for the stored server payload.
\<close>

theorem correlation_fires_on_server_half:
  "(voiceServers m g = None \<or> players m g = None \<longrightarrow> connectionProcess g m = Inr (False, m))
   \<and> (voiceServers m g = Some server \<and> players m g = Some pl \<and> voiceStates m g = Some st \<longrightarrow>
        connectionProcess g m
          = Inr (True, m\<lparr>players := (players m)(g \<mapsto> connect (session_id st, server) pl)\<rparr>))
   \<and> (voiceServers m g = Some server \<and> players m g = Some pl \<and> voiceStates m g = None
        \<and> voiceUpdateState pl = Some (sid, old) \<longrightarrow>
        connectionProcess g m
          = Inr (True, m\<lparr>players := (players m)(g \<mapsto> connect (sid, server) pl)\<rparr>))
   \<and> (connectionProcess g m = Inr (r, m') \<longrightarrow>
        (r \<longrightarrow> voiceServers m g \<noteq> None
              \<and> (\<exists>pl'. players m g = Some pl'
                         \<and> (voiceStates m g \<noteq> None \<or> voiceUpdateState pl' \<noteq> None)))
        \<and> (\<not> r \<longrightarrow> m' = m)
        \<and> (r \<longrightarrow> (\<exists>sid' server' pl'. voiceServers m g = Some server' \<and> players m g = Some pl'
                     \<and> m' = m\<lparr>players := (players m)(g \<mapsto> connect (sid', server') pl')\<rparr>)))
   \<and> (players m g = Some pl \<and> voiceUpdateState pl = None
        \<and> connectionProcess g m = Inr (True, m') \<longrightarrow>
        voiceServers m g \<noteq> None \<and> voiceStates m g \<noteq> None)"
  by (auto simp: connectionProcess_def split: option.splits)

theorem correlation_fires_on_server_half_witness:
  "voiceServers example_started ''1'' = None
   \<and> connectionProcess ''1'' (example_started\<lparr>voiceStates := [''1'' \<mapsto> example_joined]\<rparr>)
       = Inr (False, example_started\<lparr>voiceStates := [''1'' \<mapsto> example_joined]\<rparr>)
   \<and> players example_started ''1'' = Some example_player
   \<and> voiceUpdateState example_player = None
   \<and> connectionProcess ''1''
        (example_started\<lparr>voiceStates := [''1'' \<mapsto> example_joined],
                          voiceServers := [''1'' \<mapsto> example_server ''t1'']\<rparr>)
       = Inr (True,
              example_started\<lparr>voiceStates := [''1'' \<mapsto> example_joined],
                               voiceServers := [''1'' \<mapsto> example_server ''t1''],
                               players := [''1'' \<mapsto> connect (''s1'', example_server ''t1'')
                                                        example_player]\<rparr>)
   \<and> voiceStates example_after_leave ''1'' = None
   \<and> voiceUpdateState (connect (''s1'', example_server ''t1'') example_player)
       = Some (''s1'', example_server ''t1'')
   \<and> connectionProcess ''1''
        (example_after_leave\<lparr>voiceServers := [''1'' \<mapsto> example_server ''t2'']\<rparr>)
       = Inr (True,
              example_after_leave
                \<lparr>voiceServers := [''1'' \<mapsto> example_server ''t2''],
                  players := [''1'' \<mapsto> connect (''s1'', example_server ''t2'')
                                           (connect (''s1'', example_server ''t1'') example_player)]\<rparr>)"
proof -
  let ?m1 = "example_started\<lparr>voiceStates := [''1'' \<mapsto> example_joined]\<rparr>"
  let ?m2 = "example_started\<lparr>voiceStates := [''1'' \<mapsto> example_joined],
                              voiceServers := [''1'' \<mapsto> example_server ''t1'']\<rparr>"
  let ?m2' = "example_started\<lparr>voiceStates := [''1'' \<mapsto> example_joined],
                               voiceServers := [''1'' \<mapsto> example_server ''t1''],
                               players := [''1'' \<mapsto> connect (''s1'', example_server ''t1'')
                                                        example_player]\<rparr>"
  let ?m3 = "example_after_leave\<lparr>voiceServers := [''1'' \<mapsto> example_server ''t2'']\<rparr>"
  let ?pl = "connect (''s1'', example_server ''t1'') example_player"
  have a: "voiceServers example_started ''1'' = None"
    "voiceStates example_started ''1'' = None"
    "players example_started = [''1'' \<mapsto> example_player]"
    by (simp_all add: example_started_def example_manager_def new_manager_def)
  have b: "session_id example_joined = ''s1''" by (simp add: example_joined_def)
  have c: "voiceStates example_after_leave ''1'' = None"
    "players example_after_leave = [''1'' \<mapsto> ?pl]"
    by (simp_all add: example_after_leave_def a)
  have d: "voiceUpdateState ?pl = Some (''s1'', example_server ''t1'')"
    by (simp add: connect_sends)
  have f: "voiceUpdateState example_player = None"
    by (simp add: example_player_def new_player_def)
  show ?thesis
    using correlation_fires_on_server_half
            [where m = ?m1 and g = "''1''" and server = "example_server ''t1''"
               and pl = example_player and st = example_joined and sid = "''s1''"
               and old = "example_server ''t1''" and r = False and m' = ?m1]
          correlation_fires_on_server_half
            [where m = ?m2 and g = "''1''" and server = "example_server ''t1''"
               and pl = example_player and st = example_joined and sid = "''s1''"
               and old = "example_server ''t1''" and r = True and m' = ?m2']
          correlation_fires_on_server_half
            [where m = ?m3 and g = "''1''" and server = "example_server ''t2''"
               and pl = ?pl and st = example_joined and sid = "''s1''"
               and old = "example_server ''t1''" and r = True and m' = ?m3]
    by (simp add: a b c d f)
qed

lemma example_after_leave_reached:
  "packets [VOICE_STATE_UPDATE example_joined, VOICE_SERVER_UPDATE (example_server ''t1''),
            VOICE_STATE_UPDATE example_left] example_started
     = ([], example_after_leave)"
  by (simp add: voiceStateUpdate_def voiceServersUpdate_def connectionProcess_def Let_def
        example_started_def example_manager_def new_manager_def example_joined_def
        example_left_def example_server_def example_after_leave_def)

text \<open>
  Claim C2 as stated fails. The bot joined, was linked and left the channel, so both halves
  are gone; a voice-server update then arrives alone, and \<open>connect\<close> fires with the session
  id of the earlier link although no voice-state half is stored.
\<close>

theorem server_half_alone_counterexample:
  "voiceStates example_after_leave ''1'' = None
   \<and> voiceServersUpdate (example_server ''t2'') example_after_leave
       = (Inr True,
          example_after_leave
            \<lparr>voiceServers := [''1'' \<mapsto> example_server ''t2''],
              players := [''1'' \<mapsto> connect (''s1'', example_server ''t2'')
                                       (connect (''s1'', example_server ''t1'') example_player)]\<rparr>)"
  by (simp add: voiceServersUpdate_def connectionProcess_def Let_def example_after_leave_def
        example_started_def example_manager_def new_manager_def example_server_def connect_sends)

section \<open>Node selection\<close>

lemma insert_by_insort:
  assumes "\<forall>n \<in> set (x # xs). \<exists>r. node_load n = Num r"
  shows "insert_by load_compare x xs = insort_key finite_load x xs"
  using assms
proof (induction xs)
  case Nil
  then show ?case by simp
next
  case (Cons y ys)
  from Cons.prems obtain rx ry where k: "node_load x = Num rx" "node_load y = Num ry"
    by auto
  have c: "positive (load_compare x y) = (\<not> finite_load x \<le> finite_load y)"
    by (auto simp: load_compare_def finite_load_def k)
  have "insert_by load_compare x ys = insort_key finite_load x ys"
    using Cons by simp
  then show ?case by (simp add: c)
qed

lemma js_sort_sort_key:
  assumes "\<forall>n \<in> set xs. \<exists>r. node_load n = Num r"
  shows "js_sort load_compare xs = sort_key finite_load xs"
  using assms
proof (induction xs)
  case Nil
  then show ?case by simp
next
  case (Cons x xs)
  have s: "js_sort load_compare xs = sort_key finite_load xs" using Cons by simp
  have "\<forall>n \<in> set (x # sort_key finite_load xs). \<exists>r. node_load n = Num r"
    using Cons.prems by simp
  then show ?case by (simp add: s insert_by_insort)
qed

text \<open>
  When the key of every connected node is an ordinary number, \<open>leastUsedNodes\<close> is the stable
  sort by that key of the connected nodes in registration order.
\<close>

lemma leastUsedNodes_finite_keys:
  assumes "\<forall>n \<in> set (map snd (nodes m)). connected n \<longrightarrow> (\<exists>r. node_load n = Num r)"
  shows "leastUsedNodes m = sort_key finite_load (filter connected (map snd (nodes m)))"
    and "sorted (map finite_load (leastUsedNodes m))"
    and "set (leastUsedNodes m) = {n \<in> set (map snd (nodes m)). connected n}"
proof -
  have "\<forall>n \<in> set (filter connected (map snd (nodes m))). \<exists>r. node_load n = Num r"
    using assms by auto
  then show e: "leastUsedNodes m = sort_key finite_load (filter connected (map snd (nodes m)))"
    by (simp add: leastUsedNodes_def js_sort_sort_key)
  show "sorted (map finite_load (leastUsedNodes m))" by (simp add: e)
  show "set (leastUsedNodes m) = {n \<in> set (map snd (nodes m)). connected n}"
    by (auto simp: e)
qed

text \<open>
  Claim C4 at a registry of two connected nodes, the first with stats (load 0.5 on 4
  cores), the second without. The constructor's snapshot has a \<open>cpu\<close> object with zero
  cores, so the key of the second node is \<open>0 / 0 * 100\<close>, not 0; the comparison function
  returns \<open>NaN\<close> both ways, and the loaded node stays ahead of the node without stats.
\<close>

theorem leastUsedNodes_node_without_stats:
  "connected example_busy \<and> connected example_idle
   \<and> node_load example_busy = Num (25 / 2)
   \<and> node_load example_idle = NaN
   \<and> load_compare example_busy example_idle = NaN
   \<and> load_compare example_idle example_busy = NaN
   \<and> map node_tag (leastUsedNodes example_registry) = [''A'', ''B'']"
proof -
  have c: "connected example_busy" "connected example_idle"
    by (simp_all add: example_busy_def example_idle_def open_handler_def stats_message_def
          Let_def split: option.splits)
  have s: "cpu (stats example_busy)
             = Some \<lparr> cores = Num 4, systemLoad = Num (1 / 2), lavalinkLoad = Num (1 / 10) \<rparr>"
    by (simp add: example_busy_def stats_message_def)
  have i: "cpu (stats example_idle)
             = Some \<lparr> cores = Num 0, systemLoad = Num 0, lavalinkLoad = Num 0 \<rparr>"
    by (simp add: example_idle_def open_handler_def Let_def connect_node_def new_node_def
          initial_stats_def example_options_def)
  have l: "node_load example_busy = Num (25 / 2)" "node_load example_idle = NaN"
    by (simp_all add: node_load_def s i)
  have t: "node_tag example_busy = ''A''" "node_tag example_idle = ''B''"
    by (simp_all add: node_tag_def example_busy_def example_idle_def open_handler_def Let_def
          stats_message_def connect_node_def new_node_def example_options_def)
  have k: "load_compare example_busy example_idle = NaN"
    "load_compare example_idle example_busy = NaN"
    by (simp_all add: load_compare_def l)
  have "leastUsedNodes example_registry = [example_busy, example_idle]"
    by (simp add: leastUsedNodes_def example_registry_def c k)
  then show ?thesis using c l k t by simp
qed

end
